theory Spec2Isabelle
  imports Complex_Main
begin

section \<open>JavaScript numbers and the parsing built-ins\<close>

text \<open>
  The dashboard computes with JavaScript numbers. They are modelled as exact rationals
  extended with \<open>NaN\<close> and the two infinities: the special values follow IEEE 754,
  finite arithmetic is exact (rounding of doubles and overflow to an infinity are not
  represented, and neither is the sign of zero, which no operation of the dashboard
  observes).
\<close>

datatype jsnum = NaN | NegInf | Fin rat | PosInf

fun js_neg :: "jsnum \<Rightarrow> jsnum" where
  "js_neg NaN = NaN"
| "js_neg NegInf = PosInf"
| "js_neg PosInf = NegInf"
| "js_neg (Fin a) = Fin (- a)"

fun js_add :: "jsnum \<Rightarrow> jsnum \<Rightarrow> jsnum" where
  "js_add (Fin a) (Fin b) = Fin (a + b)"
| "js_add NaN _ = NaN"
| "js_add _ NaN = NaN"
| "js_add PosInf NegInf = NaN"
| "js_add NegInf PosInf = NaN"
| "js_add PosInf _ = PosInf"
| "js_add NegInf _ = NegInf"
| "js_add (Fin a) PosInf = PosInf"
| "js_add (Fin a) NegInf = NegInf"

definition js_sub :: "jsnum \<Rightarrow> jsnum \<Rightarrow> jsnum" where
  "js_sub a b = js_add a (js_neg b)"

text \<open>The sign of a number: \<open>None\<close> for \<open>NaN\<close>, otherwise \<open>-1\<close>, \<open>0\<close> or \<open>1\<close>.\<close>

fun js_sign :: "jsnum \<Rightarrow> int option" where
  "js_sign NaN = None"
| "js_sign NegInf = Some (- 1)"
| "js_sign PosInf = Some 1"
| "js_sign (Fin a) = Some (if a < 0 then - 1 else if a = 0 then 0 else 1)"

definition inf_of_sign :: "int \<Rightarrow> jsnum" where
  "inf_of_sign s = (if s = 0 then NaN else if s < 0 then NegInf else PosInf)"

fun js_mul :: "jsnum \<Rightarrow> jsnum \<Rightarrow> jsnum" where
  "js_mul (Fin a) (Fin b) = Fin (a * b)"
| "js_mul x y =
     (case (js_sign x, js_sign y) of
        (Some s, Some t) \<Rightarrow> inf_of_sign (s * t)
      | _ \<Rightarrow> NaN)"

fun js_div :: "jsnum \<Rightarrow> jsnum \<Rightarrow> jsnum" where
  "js_div (Fin a) (Fin b) =
     (if b \<noteq> 0 then Fin (a / b)
      else if a = 0 then NaN else if a < 0 then NegInf else PosInf)"
| "js_div NaN _ = NaN"
| "js_div _ NaN = NaN"
| "js_div (Fin a) PosInf = Fin 0"
| "js_div (Fin a) NegInf = Fin 0"
| "js_div PosInf (Fin b) = (if b < 0 then NegInf else PosInf)"
| "js_div NegInf (Fin b) = (if b < 0 then PosInf else NegInf)"
| "js_div PosInf _ = NaN"
| "js_div NegInf _ = NaN"

text \<open>Comparisons: every comparison with \<open>NaN\<close> is false.\<close>

fun js_le :: "jsnum \<Rightarrow> jsnum \<Rightarrow> bool" where
  "js_le NaN _ = False"
| "js_le _ NaN = False"
| "js_le NegInf _ = True"
| "js_le _ PosInf = True"
| "js_le (Fin a) (Fin b) = (a \<le> b)"
| "js_le PosInf _ = False"
| "js_le (Fin a) NegInf = False"

fun js_gt :: "jsnum \<Rightarrow> jsnum \<Rightarrow> bool" where
  "js_gt NaN _ = False"
| "js_gt _ NaN = False"
| "js_gt (Fin a) (Fin b) = (a > b)"
| "js_gt PosInf PosInf = False"
| "js_gt PosInf _ = True"
| "js_gt NegInf _ = False"
| "js_gt (Fin a) NegInf = True"
| "js_gt (Fin a) PosInf = False"

text \<open>Truthiness of a number: \<open>0\<close> and \<open>NaN\<close> are falsy.\<close>

fun truthy_num :: "jsnum \<Rightarrow> bool" where
  "truthy_num NaN = False"
| "truthy_num (Fin a) = (a \<noteq> 0)"
| "truthy_num _ = True"

subsection \<open>\<open>parseFloat\<close> and \<open>parseInt\<close>\<close>

text \<open>
  Sheets are read with \<open>raw: false\<close>, so every cell is a string. \<open>parseFloat\<close> skips
  leading white space and converts the longest prefix that is a decimal literal
  (optional sign, then \<open>Infinity\<close> or digits with an optional fraction and exponent);
  when there is no such prefix the result is \<open>NaN\<close>. Strings are byte strings here, so
  only the ASCII white-space characters are skipped.
\<close>

text \<open>The value of a decimal digit, from its character code (\<open>0\<close> is 48, \<open>9\<close> is 57).\<close>

definition digitVal :: "char \<Rightarrow> nat option" where
  "digitVal c =
     (let code = (of_char c :: nat)
      in if 48 \<le> code \<and> code \<le> 57 then Some (code - 48) else None)"

definition isSpace :: "char \<Rightarrow> bool" where
  "isSpace c = (c = CHR '' '' \<or> c = CHR 0x09 \<or> c = CHR 0x0A \<or> c = CHR 0x0B
                \<or> c = CHR 0x0C \<or> c = CHR 0x0D)"

text \<open>
  \<open>takeDigits acc n s\<close> reads the leading digits of \<open>s\<close>: it returns the value of
  \<open>acc\<close> extended by those digits, the number of digits read plus \<open>n\<close>, and the rest.
\<close>

fun takeDigits :: "nat \<Rightarrow> nat \<Rightarrow> string \<Rightarrow> nat \<times> nat \<times> string" where
  "takeDigits acc n [] = (acc, n, [])"
| "takeDigits acc n (c # cs) =
     (case digitVal c of
        None \<Rightarrow> (acc, n, c # cs)
      | Some d \<Rightarrow> takeDigits (10 * acc + d) (Suc n) cs)"

text \<open>The exponent part: \<open>e\<close> or \<open>E\<close>, an optional sign and at least one digit.\<close>

definition exponentPart :: "string \<Rightarrow> int" where
  "exponentPart s =
     (case s of
        [] \<Rightarrow> 0
      | c # cs \<Rightarrow>
          if c = CHR ''e'' \<or> c = CHR ''E'' then
            (case cs of
               [] \<Rightarrow> 0
             | d # ds \<Rightarrow>
                 if d = CHR ''+'' then
                   (case takeDigits 0 0 ds of (v, k, _) \<Rightarrow> if k = 0 then 0 else int v)
                 else if d = CHR ''-'' then
                   (case takeDigits 0 0 ds of (v, k, _) \<Rightarrow> if k = 0 then 0 else - int v)
                 else
                   (case takeDigits 0 0 cs of (v, k, _) \<Rightarrow> if k = 0 then 0 else int v))
          else 0)"

definition scale10 :: "rat \<Rightarrow> int \<Rightarrow> rat" where
  "scale10 m e = (if e < 0 then m / 10 ^ nat (- e) else m * 10 ^ nat e)"

text \<open>An unsigned decimal literal at the start of \<open>s\<close>, if there is one.\<close>

definition unsignedLiteral :: "string \<Rightarrow> jsnum" where
  "unsignedLiteral s =
     (if take 8 s = ''Infinity'' then PosInf
      else
        (case takeDigits 0 0 s of
           (ip, n, rest) \<Rightarrow>
             (case rest of
                c # cs \<Rightarrow>
                  if c = CHR ''.'' then
                    (case takeDigits ip 0 cs of
                       (m, k, rest') \<Rightarrow>
                         if n = 0 \<and> k = 0 then NaN
                         else Fin (scale10 (of_nat m / 10 ^ k) (exponentPart rest')))
                  else if n = 0 then NaN
                  else Fin (scale10 (of_nat ip) (exponentPart rest))
              | [] \<Rightarrow> if n = 0 then NaN else Fin (of_nat ip))))"

definition parseFloat :: "string \<Rightarrow> jsnum" where
  "parseFloat s =
     (case dropWhile isSpace s of
        [] \<Rightarrow> NaN
      | c # cs \<Rightarrow>
          if c = CHR ''-'' then js_neg (unsignedLiteral cs)
          else if c = CHR ''+'' then unsignedLiteral cs
          else unsignedLiteral (c # cs))"

text \<open>
  \<open>parseInt(s, 10)\<close>: leading white space, an optional sign, then the longest run of
  decimal digits; \<open>NaN\<close> when there is no digit.
\<close>

definition unsignedInt :: "string \<Rightarrow> jsnum" where
  "unsignedInt s = (case takeDigits 0 0 s of (v, n, _) \<Rightarrow> if n = 0 then NaN else Fin (of_nat v))"

definition parseInt10 :: "string \<Rightarrow> jsnum" where
  "parseInt10 s =
     (case dropWhile isSpace s of
        [] \<Rightarrow> NaN
      | c # cs \<Rightarrow>
          if c = CHR ''-'' then js_neg (unsignedInt cs)
          else if c = CHR ''+'' then unsignedInt cs
          else unsignedInt (c # cs))"

section \<open>Sheets\<close>

text \<open>
  A sheet is the list of its rows, in sheet order; a row maps a column name to the text
  of the cell. A column the row does not have reads as \<open>undefined\<close>, here \<open>None\<close>.
  A sheet missing from the workbook is read as the empty list of rows. Every column
  that the dashboard reads has a literal name which is not the name of a member that
  objects inherit, so a row is read through its own cells only.
\<close>

type_synonym row = "string \<rightharpoonup> string"
type_synonym sheet = "row list"

text \<open>\<open>parseFloat(cell || 0)\<close> and \<open>parseInt(cell || 0, 10)\<close>: a missing or empty cell is \<open>0\<close>.\<close>

definition parseFloat_or0 :: "string option \<Rightarrow> jsnum" where
  "parseFloat_or0 cell =
     (case cell of None \<Rightarrow> Fin 0 | Some s \<Rightarrow> if s = [] then Fin 0 else parseFloat s)"

definition parseInt10_or0 :: "string option \<Rightarrow> jsnum" where
  "parseInt10_or0 cell =
     (case cell of None \<Rightarrow> Fin 0 | Some s \<Rightarrow> if s = [] then Fin 0 else parseInt10 s)"

text \<open>\<open>sheet.find(m => m.YearMonth === ym)\<close>: the first row of the period, if any.\<close>

definition findPeriod :: "string option \<Rightarrow> sheet \<Rightarrow> row option" where
  "findPeriod ym sh = find (\<lambda>m. m ''YearMonth'' = ym) sh"

definition orEmpty :: "row option \<Rightarrow> row" where
  "orEmpty r = (case r of None \<Rightarrow> Map.empty | Some m \<Rightarrow> m)"

record workbook =
  walletBalances :: sheet
  monthlyTransactionCount :: sheet
  monthlyRevenue :: sheet
  monthlyVolume :: sheet
  userStats :: sheet

section \<open>The dashboard of \<open>src/FinancialDashboard.js\<close>\<close>

subsection \<open>Growth and exchange rates\<close>

definition calcGrowth :: "jsnum \<Rightarrow> jsnum \<Rightarrow> jsnum" where
  "calcGrowth current previous =
     (if js_gt previous (Fin 0) then
        js_mul (js_div (js_sub current previous) previous) (Fin 100)
      else if js_gt current (Fin 0) then Fin 100
      else Fin 0)"

text \<open>The exchange rates to KES, the object literal at the start of \<open>loadData\<close>.\<close>

definition exchangeRateTable :: "string \<rightharpoonup> jsnum" where
  "exchangeRateTable =
     [''UGX'' \<mapsto> js_div (Fin 1) (Fin (284659 / 10000)),
      ''NGN'' \<mapsto> js_div (Fin 1) (Fin (1159 / 100)),
      ''USD'' \<mapsto> Fin (1293827 / 10000),
      ''CNY'' \<mapsto> Fin (1780 / 100)]"

text \<open>
  The table is a plain object, so \<open>rates[c]\<close> finds the own property \<open>c\<close> and
  otherwise a member that every object inherits from \<open>Object.prototype\<close>, such as
  \<open>constructor\<close> or \<open>toString\<close>. An inherited member is a function or an object: it
  is truthy, and in a product it is \<open>NaN\<close>. The names are those of an unmodified
  \<open>Object.prototype\<close>.
\<close>

definition inheritedNames :: "string list" where
  "inheritedNames =
     [''constructor'', ''toString'', ''toLocaleString'', ''valueOf'', ''hasOwnProperty'',
      ''isPrototypeOf'', ''propertyIsEnumerable'', ''__proto__'', ''__defineGetter__'',
      ''__defineSetter__'', ''__lookupGetter__'', ''__lookupSetter__'']"

datatype property = Undefined | Number jsnum | Inherited

definition getProperty :: "(string \<rightharpoonup> jsnum) \<Rightarrow> string \<Rightarrow> property" where
  "getProperty rates c =
     (case rates c of
        Some r \<Rightarrow> Number r
      | None \<Rightarrow> if c \<in> set inheritedNames then Inherited else Undefined)"

text \<open>Reading a property for arithmetic: anything but a number becomes \<open>NaN\<close>.\<close>

definition rateOf :: "(string \<rightharpoonup> jsnum) \<Rightarrow> string \<Rightarrow> jsnum" where
  "rateOf rates c =
     (case getProperty rates c of Number r \<Rightarrow> r | Inherited \<Rightarrow> NaN | Undefined \<Rightarrow> NaN)"

text \<open>\<open>if (rates[c])\<close>: the property is a truthy number or an inherited member.\<close>

definition hasRate :: "(string \<rightharpoonup> jsnum) \<Rightarrow> string \<Rightarrow> bool" where
  "hasRate rates c =
     (case getProperty rates c of
        Number r \<Rightarrow> truthy_num r
      | Inherited \<Rightarrow> True
      | Undefined \<Rightarrow> False)"

subsection \<open>Active users in a date range\<close>

text \<open>
  Instants are milliseconds since the epoch. \<open>new Date(text)\<close> is a parameter
  \<open>parseDate\<close> of the model, since the accepted formats depend on the platform, and
  the instant of a text without a zone on the local time zone; it returns \<open>None\<close> for
  an invalid date, which fails every comparison.
\<close>

record activeByCurrency =
  KES :: nat
  UGX :: nat
  NGN :: nat
  USD :: nat
  CNY :: nat

text \<open>\<open>user.C && parseFloat(user.C) > 0\<close>\<close>

definition positiveBalance :: "string option \<Rightarrow> bool" where
  "positiveBalance cell =
     (case cell of None \<Rightarrow> False | Some s \<Rightarrow> s \<noteq> [] \<and> js_gt (parseFloat s) (Fin 0))"

definition countUser :: "row \<Rightarrow> activeByCurrency \<Rightarrow> activeByCurrency" where
  "countUser user acc =
     (let a1 = (if positiveBalance (user ''KES'') then acc\<lparr>KES := Suc (KES acc)\<rparr> else acc);
          a2 = (if positiveBalance (user ''UGX'') then a1\<lparr>UGX := Suc (UGX a1)\<rparr> else a1);
          a3 = (if positiveBalance (user ''NGN'') then a2\<lparr>NGN := Suc (NGN a2)\<rparr> else a2);
          a4 = (if positiveBalance (user ''USD'') then a3\<lparr>USD := Suc (USD a3)\<rparr> else a3)
      in if positiveBalance (user ''CNY'') then a4\<lparr>CNY := Suc (CNY a4)\<rparr> else a4)"

text \<open>The body of the \<open>forEach\<close> over the wallet rows.\<close>

definition activeStep ::
  "(string \<Rightarrow> int option) \<Rightarrow> int \<Rightarrow> int \<Rightarrow> activeByCurrency \<Rightarrow> row \<Rightarrow> activeByCurrency"
where
  "activeStep parseDate startDate endDate acc user =
     (case user ''Last Transaction'' of
        None \<Rightarrow> acc
      | Some lastTx \<Rightarrow>
          if lastTx = [] then acc
          else
            (case parseDate lastTx of
               None \<Rightarrow> acc
             | Some lastTxDate \<Rightarrow>
                 if startDate \<le> lastTxDate \<and> lastTxDate \<le> endDate then countUser user acc
                 else acc))"

definition getActiveUsersByCurrencyInRange ::
  "(string \<Rightarrow> int option) \<Rightarrow> sheet \<Rightarrow> int \<Rightarrow> int \<Rightarrow> activeByCurrency"
where
  "getActiveUsersByCurrencyInRange parseDate wallet startDate endDate =
     foldl (activeStep parseDate startDate endDate)
       \<lparr>KES = 0, UGX = 0, NGN = 0, USD = 0, CNY = 0\<rparr> wallet"

text \<open>\<open>activeByCurrency[currency] || 0\<close>\<close>

definition activeCount :: "activeByCurrency \<Rightarrow> string \<Rightarrow> nat" where
  "activeCount a c =
     (if c = ''KES'' then KES a else if c = ''UGX'' then UGX a
      else if c = ''NGN'' then NGN a else if c = ''USD'' then USD a
      else if c = ''CNY'' then CNY a else 0)"

text \<open>
  The clock is read three times, by the three \<open>new Date()\<close> of step 1.
\<close>

record clock =
  readEnd :: int
  readStart :: int
  readPrevious :: int

definition dayMs :: int where
  "dayMs = 86400000"

text \<open>
  A time zone gives the offset of the local time from UTC in milliseconds, for an
  instant (\<open>tzaOfUtc\<close>) and for a local time (\<open>tzaOfLocal\<close>); the two are the
  \<open>LocalTZA\<close> of the language definition. \<open>d.setDate(d.getDate() - n)\<close> takes the
  local time of \<open>d\<close>, keeps the time of day, moves the day number back by \<open>n\<close>, and
  converts the local time it obtains to an instant.
\<close>

record timeZone =
  tzaOfUtc :: "int \<Rightarrow> int"
  tzaOfLocal :: "int \<Rightarrow> int"

definition localTime :: "timeZone \<Rightarrow> int \<Rightarrow> int" where
  "localTime tz t = t + tzaOfUtc tz t"

definition utcTime :: "timeZone \<Rightarrow> int \<Rightarrow> int" where
  "utcTime tz t = t - tzaOfLocal tz t"

definition setDateBack :: "timeZone \<Rightarrow> int \<Rightarrow> int \<Rightarrow> int" where
  "setDateBack tz n t = utcTime tz (localTime tz t - n * dayMs)"

definition endDateCurrent :: "clock \<Rightarrow> int" where
  "endDateCurrent clk = readEnd clk"

definition startDateCurrent :: "timeZone \<Rightarrow> clock \<Rightarrow> int" where
  "startDateCurrent tz clk = setDateBack tz 30 (readStart clk)"

definition endDatePrevious :: "timeZone \<Rightarrow> clock \<Rightarrow> int" where
  "endDatePrevious tz clk = startDateCurrent tz clk"

definition startDatePrevious :: "timeZone \<Rightarrow> clock \<Rightarrow> int" where
  "startDatePrevious tz clk = setDateBack tz 60 (readPrevious clk)"

text \<open>The window test of the \<open>filter\<close> that counts distinct active users.\<close>

definition inWindow :: "(string \<Rightarrow> int option) \<Rightarrow> int \<Rightarrow> int \<Rightarrow> row \<Rightarrow> bool" where
  "inWindow parseDate startDate endDate user =
     (case parseDate (case user ''Last Transaction'' of None \<Rightarrow> [] | Some s \<Rightarrow> s) of
        None \<Rightarrow> False
      | Some lastTxDate \<Rightarrow> startDate \<le> lastTxDate \<and> lastTxDate \<le> endDate)"

definition distinctActiveUsers ::
  "(string \<Rightarrow> int option) \<Rightarrow> timeZone \<Rightarrow> clock \<Rightarrow> sheet \<Rightarrow> nat"
where
  "distinctActiveUsers parseDate tz clk wallet =
     length (filter (inWindow parseDate (startDateCurrent tz clk) (endDateCurrent clk)) wallet)"

subsection \<open>Key metrics\<close>

datatype error = TypeError

definition removeCommas :: "string \<Rightarrow> string" where
  "removeCommas s = filter (\<lambda>c. c \<noteq> CHR '','') s"

text \<open>
  The total number of users: the \<open>Total Users\<close> row of the statistics sheet, else the
  number of wallet rows. Calling \<open>replace\<close> on a missing \<open>Value\<close> raises a \<open>TypeError\<close>,
  which aborts \<open>loadData\<close>.
\<close>

definition totalUsersOf :: "sheet \<Rightarrow> sheet \<Rightarrow> error + jsnum" where
  "totalUsersOf stats wallet =
     (case find (\<lambda>item. item ''Metric'' = Some ''Total Users'') stats of
        Some userStatRow \<Rightarrow>
          (case userStatRow ''Value'' of
             None \<Rightarrow> Inl TypeError
           | Some v \<Rightarrow> Inr (parseInt10 (removeCommas v)))
      | None \<Rightarrow> Inr (Fin (of_nat (length wallet))))"

definition totalTransactionsOf :: "sheet \<Rightarrow> jsnum" where
  "totalTransactionsOf txSheet =
     (case findPeriod (Some ''2025-02'') txSheet of
        Some febCountRow \<Rightarrow> parseInt10_or0 (febCountRow ''Total'')
      | None \<Rightarrow> Fin 0)"

text \<open>
  \<open>if (row.C) total += parseFloat(row.C) * rate\<close>: one currency column added to a
  running total in KES; the KES column itself is added without a factor.
\<close>

definition addPlain :: "jsnum \<Rightarrow> string option \<Rightarrow> jsnum" where
  "addPlain tot cell =
     (case cell of
        None \<Rightarrow> tot
      | Some s \<Rightarrow> if s = [] then tot else js_add tot (parseFloat s))"

definition addConverted :: "jsnum \<Rightarrow> string option \<Rightarrow> jsnum \<Rightarrow> jsnum" where
  "addConverted tot cell rate =
     (case cell of
        None \<Rightarrow> tot
      | Some s \<Rightarrow> if s = [] then tot else js_add tot (js_mul (parseFloat s) rate))"

text \<open>
  The five statements that sum a revenue row in KES. \<open>loadData\<close> has them twice, for
  the row of 2025-02 (\<open>totalKesRevenue\<close>) and for the row of each trend point (\<open>revKES\<close>).
\<close>

definition revKES :: "row \<Rightarrow> jsnum" where
  "revKES revRow =
     (let r1 = addPlain (Fin 0) (revRow ''KES'');
          r2 = addConverted r1 (revRow ''NGN'') (rateOf exchangeRateTable ''NGN'');
          r3 = addConverted r2 (revRow ''UGX'') (rateOf exchangeRateTable ''UGX'');
          r4 = addConverted r3 (revRow ''USD'') (rateOf exchangeRateTable ''USD'')
      in addConverted r4 (revRow ''CNY'') (rateOf exchangeRateTable ''CNY''))"

definition totalKesRevenue :: "sheet \<Rightarrow> jsnum" where
  "totalKesRevenue revSheet =
     (case findPeriod (Some ''2025-02'') revSheet of
        Some febRevenueRow \<Rightarrow> revKES febRevenueRow
      | None \<Rightarrow> Fin 0)"

subsection \<open>Monthly trends and month-over-month growth\<close>

record trendPoint =
  month :: "string option"
  transactions :: jsnum
  revenue :: jsnum
  users :: jsnum
  volume :: jsnum

definition monthlyTrendsRaw :: "sheet \<Rightarrow> sheet \<Rightarrow> sheet \<Rightarrow> trendPoint list" where
  "monthlyTrendsRaw txSheet revSheet volSheet =
     map (\<lambda>item.
            let ym = item ''YearMonth'';
                revRow = orEmpty (findPeriod ym revSheet);
                volRow = orEmpty (findPeriod ym volSheet)
            in \<lparr>month = ym,
                transactions = parseInt10_or0 (item ''Total''),
                revenue = revKES revRow,
                users = Fin 0,
                volume = parseFloat_or0 (volRow ''Total'')\<rparr>)
         (filter (\<lambda>item. item ''YearMonth'' \<noteq> Some ''Total'') txSheet)"

text \<open>
  A point of a growth series. The three series name their last field \<open>users\<close>,
  \<open>revenue\<close> and \<open>volume\<close>; here it is \<open>g_value\<close> in all three. A \<open>null\<close> growth is
  \<open>None\<close>.
\<close>

record growthPoint =
  g_month :: "string option"
  g_growth :: "jsnum option"
  g_value :: jsnum

record growthRates =
  userSeries :: "growthPoint list"
  revenueSeries :: "growthPoint list"
  volumeSeries :: "growthPoint list"

text \<open>\<open>(prev > 0) ? ((curr - prev) / prev) * 100 : null\<close>\<close>

definition monthGrowth :: "jsnum \<Rightarrow> jsnum \<Rightarrow> jsnum option" where
  "monthGrowth cur prev =
     (if js_gt prev (Fin 0) then Some (js_mul (js_div (js_sub cur prev) prev) (Fin 100))
      else None)"

text \<open>
  The loop \<open>for (let i = 1; i < monthlyTrendsRaw.length; i++)\<close>: round \<open>i\<close> pushes one
  point to each series, computed from the trend points \<open>i - 1\<close> and \<open>i\<close>.
\<close>

definition growthRound :: "(trendPoint \<Rightarrow> jsnum) \<Rightarrow> trendPoint list \<Rightarrow> nat \<Rightarrow> growthPoint" where
  "growthRound field trends i =
     (let prev = trends ! (i - 1); cur = trends ! i
      in \<lparr>g_month = month cur,
          g_growth = monthGrowth (field cur) (field prev),
          g_value = field cur\<rparr>)"

definition growthRatesRaw :: "trendPoint list \<Rightarrow> growthRates" where
  "growthRatesRaw trends =
     \<lparr>userSeries = map (growthRound users trends) [1..<length trends],
      revenueSeries = map (growthRound revenue trends) [1..<length trends],
      volumeSeries = map (growthRound volume trends) [1..<length trends]\<rparr>"

subsection \<open>Month-to-date growth by currency\<close>

record mtdEntry =
  currency :: string
  transactionCountGrowth :: jsnum
  currentTransactionCount :: jsnum
  previousTransactionCount :: jsnum
  transactionVolumeGrowth :: jsnum
  currentTransactionVolume :: jsnum
  previousTransactionVolume :: jsnum
  volumeKES :: jsnum
  previousVolumeKES :: jsnum
  revenueGrowth :: jsnum
  currentRevenue :: jsnum
  previousRevenue :: jsnum
  userGrowth :: jsnum
  currentActiveUsers :: jsnum
  previousActiveUsers :: jsnum

definition currencies :: "string list" where
  "currencies = [''KES'', ''UGX'', ''NGN'', ''USD'', ''CNY'']"

text \<open>The conversion written out in step 5: only a currency with a rate is converted.\<close>

definition volToKES :: "jsnum \<Rightarrow> string \<Rightarrow> jsnum" where
  "volToKES vol c =
     (if c \<noteq> ''KES'' then
        (if hasRate exchangeRateTable c then js_mul vol (rateOf exchangeRateTable c) else vol)
      else vol)"

text \<open>The rows of the two periods in the three monthly sheets, \<open>{}\<close> when absent.\<close>

record mtdRows =
  janTxRow :: row
  febTxRow :: row
  janVolRow :: row
  febVolRow :: row
  janRevRow :: row
  febRevRow :: row

definition mtdRowsOf :: "workbook \<Rightarrow> mtdRows" where
  "mtdRowsOf wb =
     \<lparr>janTxRow = orEmpty (findPeriod (Some ''2025-01'') (monthlyTransactionCount wb)),
      febTxRow = orEmpty (findPeriod (Some ''2025-02'') (monthlyTransactionCount wb)),
      janVolRow = orEmpty (findPeriod (Some ''2025-01'') (monthlyVolume wb)),
      febVolRow = orEmpty (findPeriod (Some ''2025-02'') (monthlyVolume wb)),
      janRevRow = orEmpty (findPeriod (Some ''2025-01'') (monthlyRevenue wb)),
      febRevRow = orEmpty (findPeriod (Some ''2025-02'') (monthlyRevenue wb))\<rparr>"

definition mtdGrowthEntry ::
  "mtdRows \<Rightarrow> activeByCurrency \<Rightarrow> activeByCurrency \<Rightarrow> string \<Rightarrow> mtdEntry"
where
  "mtdGrowthEntry rows currentActiveByCurrency previousActiveByCurrency c =
     (let currentTx = parseFloat_or0 (febTxRow rows c);
          prevTx = parseFloat_or0 (janTxRow rows c);
          currentVol = parseFloat_or0 (febVolRow rows c);
          prevVol = parseFloat_or0 (janVolRow rows c);
          currentRev = parseFloat_or0 (febRevRow rows c);
          prevRev = parseFloat_or0 (janRevRow rows c);
          currActive = Fin (of_nat (activeCount currentActiveByCurrency c));
          prevActive = Fin (of_nat (activeCount previousActiveByCurrency c))
      in \<lparr>currency = c,
          transactionCountGrowth = calcGrowth currentTx prevTx,
          currentTransactionCount = currentTx,
          previousTransactionCount = prevTx,
          transactionVolumeGrowth = calcGrowth currentVol prevVol,
          currentTransactionVolume = currentVol,
          previousTransactionVolume = prevVol,
          volumeKES = volToKES currentVol c,
          previousVolumeKES = volToKES prevVol c,
          revenueGrowth = calcGrowth currentRev prevRev,
          currentRevenue = currentRev,
          previousRevenue = prevRev,
          userGrowth = calcGrowth currActive prevActive,
          currentActiveUsers = currActive,
          previousActiveUsers = prevActive\<rparr>)"

definition mtdGrowthData ::
  "mtdRows \<Rightarrow> activeByCurrency \<Rightarrow> activeByCurrency \<Rightarrow> mtdEntry list"
where
  "mtdGrowthData rows currentActiveByCurrency previousActiveByCurrency =
     map (mtdGrowthEntry rows currentActiveByCurrency previousActiveByCurrency) currencies"

subsection \<open>The data handed to the charts\<close>

text \<open>\<open>transformForLogScale\<close>: a value that is \<open>\<le> 0\<close> under one of the keys becomes \<open>0.1\<close>.\<close>

definition logFloor :: "jsnum \<Rightarrow> jsnum" where
  "logFloor x = (if js_le x (Fin 0) then Fin (1 / 10) else x)"

definition transformTrends :: "trendPoint list \<Rightarrow> trendPoint list" where
  "transformTrends dataArray =
     map (\<lambda>item. item\<lparr>transactions := logFloor (transactions item),
                      revenue := logFloor (revenue item),
                      users := logFloor (users item),
                      volume := logFloor (volume item)\<rparr>) dataArray"

definition transformGrowth :: "growthPoint list \<Rightarrow> growthPoint list" where
  "transformGrowth dataArray = map (\<lambda>item. item\<lparr>g_value := logFloor (g_value item)\<rparr>) dataArray"

record keyMetrics =
  totalRevenue :: jsnum
  totalTransactions :: jsnum
  totalUsers :: jsnum
  activeUsers :: nat

record dashboardData =
  keyMetricsOf :: keyMetrics
  currencyData :: "row list"
  monthlyTrends :: "trendPoint list"
  mtdGrowth :: "mtdEntry list"
  growthRatesOf :: growthRates
  exchangeRates :: "string \<rightharpoonup> jsnum"

text \<open>
  \<open>loadData\<close>, from the parsed workbook on. The only statement that can raise is the
  one in \<open>totalUsersOf\<close>; everything else is total, so the result is the error or the
  data passed to \<open>setData\<close>. The sums \<open>sumCurrentActive\<close> and \<open>sumPreviousActive\<close>
  are computed by the source and never used; they are left out.
\<close>

definition loadData ::
  "(string \<Rightarrow> int option) \<Rightarrow> timeZone \<Rightarrow> clock \<Rightarrow> workbook \<Rightarrow> error + dashboardData"
where
  "loadData parseDate tz clk wb =
     (let currentActiveByCurrency =
            getActiveUsersByCurrencyInRange parseDate (walletBalances wb)
              (startDateCurrent tz clk) (endDateCurrent clk);
          previousActiveByCurrency =
            getActiveUsersByCurrencyInRange parseDate (walletBalances wb)
              (startDatePrevious tz clk) (endDatePrevious tz clk);
          trendsRaw =
            monthlyTrendsRaw (monthlyTransactionCount wb) (monthlyRevenue wb) (monthlyVolume wb);
          ratesRaw = growthRatesRaw trendsRaw
      in case totalUsersOf (userStats wb) (walletBalances wb) of
           Inl e \<Rightarrow> Inl e
         | Inr nUsers \<Rightarrow>
             Inr \<lparr>keyMetricsOf =
                    \<lparr>totalRevenue = totalKesRevenue (monthlyRevenue wb),
                     totalTransactions = totalTransactionsOf (monthlyTransactionCount wb),
                     totalUsers = nUsers,
                     activeUsers = distinctActiveUsers parseDate tz clk (walletBalances wb)\<rparr>,
                  currencyData = [],
                  monthlyTrends = transformTrends trendsRaw,
                  mtdGrowth =
                    mtdGrowthData (mtdRowsOf wb) currentActiveByCurrency previousActiveByCurrency,
                  growthRatesOf =
                    \<lparr>userSeries = transformGrowth (userSeries ratesRaw),
                     revenueSeries = transformGrowth (revenueSeries ratesRaw),
                     volumeSeries = transformGrowth (volumeSeries ratesRaw)\<rparr>,
                  exchangeRates = exchangeRateTable\<rparr>)"

section \<open>The revision with calendar months (\<open>unnamed/part_002\<close>)\<close>

text \<open>
  This revision has the same \<open>calcGrowth\<close> and the same
  \<open>getActiveUsersByCurrencyInRange\<close>, which it calls with the first and last instant of
  February and of January 2025. It converts with \<open>convertToKES\<close> and computes the
  volume growth of the month-to-date table from the converted volumes.
\<close>

text \<open>
  The four instants \<open>new Date(2025, 1, 1)\<close>, \<open>new Date(2025, 1, 28, 23, 59, 59)\<close>,
  \<open>new Date(2025, 0, 1)\<close> and \<open>new Date(2025, 0, 31, 23, 59, 59)\<close> are given as local
  times.
\<close>

definition febStart :: "timeZone \<Rightarrow> int" where
  "febStart tz = utcTime tz 1738368000000"

definition febEnd :: "timeZone \<Rightarrow> int" where
  "febEnd tz = utcTime tz 1740787199000"

definition janStart :: "timeZone \<Rightarrow> int" where
  "janStart tz = utcTime tz 1735689600000"

definition janEnd :: "timeZone \<Rightarrow> int" where
  "janEnd tz = utcTime tz 1738367999000"

definition currentActiveByCurrency_p2 ::
  "(string \<Rightarrow> int option) \<Rightarrow> timeZone \<Rightarrow> sheet \<Rightarrow> activeByCurrency"
where
  "currentActiveByCurrency_p2 parseDate tz wallet =
     getActiveUsersByCurrencyInRange parseDate wallet (febStart tz) (febEnd tz)"

definition previousActiveByCurrency_p2 ::
  "(string \<Rightarrow> int option) \<Rightarrow> timeZone \<Rightarrow> sheet \<Rightarrow> activeByCurrency"
where
  "previousActiveByCurrency_p2 parseDate tz wallet =
     getActiveUsersByCurrencyInRange parseDate wallet (janStart tz) (janEnd tz)"

definition convertToKES :: "jsnum \<Rightarrow> string option \<Rightarrow> (string \<rightharpoonup> jsnum) \<Rightarrow> jsnum" where
  "convertToKES vol cur rates =
     (case cur of
        None \<Rightarrow> vol
      | Some c \<Rightarrow>
          if c = [] \<or> c = ''KES'' then vol
          else js_mul vol (if hasRate rates c then rateOf rates c else Fin 1))"

definition mtdGrowthEntry_p2 ::
  "mtdRows \<Rightarrow> activeByCurrency \<Rightarrow> activeByCurrency \<Rightarrow> string \<Rightarrow> mtdEntry"
where
  "mtdGrowthEntry_p2 rows currentActiveByCurrency previousActiveByCurrency c =
     (let currentTx = parseFloat_or0 (febTxRow rows c);
          prevTx = parseFloat_or0 (janTxRow rows c);
          currentVol = parseFloat_or0 (febVolRow rows c);
          prevVol = parseFloat_or0 (janVolRow rows c);
          currentVolKES = convertToKES currentVol (Some c) exchangeRateTable;
          prevVolKES = convertToKES prevVol (Some c) exchangeRateTable;
          currentRev = parseFloat_or0 (febRevRow rows c);
          prevRev = parseFloat_or0 (janRevRow rows c);
          currActive = Fin (of_nat (activeCount currentActiveByCurrency c));
          prevActive = Fin (of_nat (activeCount previousActiveByCurrency c))
      in \<lparr>currency = c,
          transactionCountGrowth = calcGrowth currentTx prevTx,
          currentTransactionCount = currentTx,
          previousTransactionCount = prevTx,
          transactionVolumeGrowth = calcGrowth currentVolKES prevVolKES,
          currentTransactionVolume = currentVol,
          previousTransactionVolume = prevVol,
          volumeKES = currentVolKES,
          previousVolumeKES = prevVolKES,
          revenueGrowth = calcGrowth currentRev prevRev,
          currentRevenue = currentRev,
          previousRevenue = prevRev,
          userGrowth = calcGrowth currActive prevActive,
          currentActiveUsers = currActive,
          previousActiveUsers = prevActive\<rparr>)"

definition mtdGrowthData_p2 ::
  "mtdRows \<Rightarrow> activeByCurrency \<Rightarrow> activeByCurrency \<Rightarrow> mtdEntry list"
where
  "mtdGrowthData_p2 rows currentActiveByCurrency previousActiveByCurrency =
     map (mtdGrowthEntry_p2 rows currentActiveByCurrency previousActiveByCurrency) currencies"

section \<open>The revenue total of \<open>src/App.js\<close>\<close>



section \<open>The revision with the monthly sheets and a rolling window (\<open>unnamed/part_001\<close>)\<close>

subsection \<open>\<open>parseInt\<close> without a radix\<close>

definition hexDigitVal :: "char \<Rightarrow> nat option" where
  "hexDigitVal c =
     (case digitVal c of
        Some d \<Rightarrow> Some d
      | None \<Rightarrow>
          if c = CHR ''a'' \<or> c = CHR ''A'' then Some 10
          else if c = CHR ''b'' \<or> c = CHR ''B'' then Some 11
          else if c = CHR ''c'' \<or> c = CHR ''C'' then Some 12
          else if c = CHR ''d'' \<or> c = CHR ''D'' then Some 13
          else if c = CHR ''e'' \<or> c = CHR ''E'' then Some 14
          else if c = CHR ''f'' \<or> c = CHR ''F'' then Some 15
          else None)"

fun takeHexDigits :: "nat \<Rightarrow> nat \<Rightarrow> string \<Rightarrow> nat \<times> nat" where
  "takeHexDigits acc n [] = (acc, n)"
| "takeHexDigits acc n (c # cs) =
     (case hexDigitVal c of
        None \<Rightarrow> (acc, n)
      | Some d \<Rightarrow> takeHexDigits (16 * acc + d) (Suc n) cs)"

text \<open>After the sign: a \<open>0x\<close> or \<open>0X\<close> prefix selects radix 16, otherwise radix 10.\<close>

definition unsignedIntAuto :: "string \<Rightarrow> jsnum" where
  "unsignedIntAuto s =
     (if take 2 s = ''0x'' \<or> take 2 s = ''0X'' then
        (case takeHexDigits 0 0 (drop 2 s) of
           (v, n) \<Rightarrow> if n = 0 then NaN else Fin (of_nat v))
      else unsignedInt s)"

definition parseInt :: "string \<Rightarrow> jsnum" where
  "parseInt s =
     (case dropWhile isSpace s of
        [] \<Rightarrow> NaN
      | c # cs \<Rightarrow>
          if c = CHR ''-'' then js_neg (unsignedIntAuto cs)
          else if c = CHR ''+'' then unsignedIntAuto cs
          else unsignedIntAuto (c # cs))"

subsection \<open>Revenue of the current month\<close>

text \<open>
  \<open>keyMetrics.totalRevenue\<close>: it starts at \<open>0\<close> and is set from the row of 2025-02,
  with the rates written out as literals, two of them as divisors.
\<close>

definition addDivided :: "jsnum \<Rightarrow> string option \<Rightarrow> jsnum \<Rightarrow> jsnum" where
  "addDivided tot cell divisor =
     (case cell of
        None \<Rightarrow> tot
      | Some s \<Rightarrow> if s = [] then tot else js_add tot (js_div (parseFloat s) divisor))"

definition totalRevenue_p1 :: "sheet \<Rightarrow> jsnum" where
  "totalRevenue_p1 revSheet =
     (case findPeriod (Some ''2025-02'') revSheet of
        None \<Rightarrow> Fin 0
      | Some febData \<Rightarrow>
          (let r1 = addPlain (Fin 0) (febData ''KES'');
               r2 = addDivided r1 (febData ''NGN'') (Fin (1159 / 100));
               r3 = addDivided r2 (febData ''UGX'') (Fin (284659 / 10000));
               r4 = addConverted r3 (febData ''USD'') (Fin (1293827 / 10000))
           in addConverted r4 (febData ''CNY'') (Fin (1780 / 100))))"

subsection \<open>Active users by currency\<close>

text \<open>The filter that selects the active users: a last transaction on or after \<open>thirtyDaysAgo\<close>.\<close>

definition isActive_p1 :: "(string \<Rightarrow> int option) \<Rightarrow> int \<Rightarrow> row \<Rightarrow> bool" where
  "isActive_p1 parseDate thirtyDaysAgo user =
     (case user ''Last Transaction'' of
        None \<Rightarrow> False
      | Some s \<Rightarrow>
          if s = [] then False
          else (case parseDate s of None \<Rightarrow> False | Some d \<Rightarrow> thirtyDaysAgo \<le> d))"

text \<open>\<open>user.C && user.C !== '0.00 C' && user.C !== '0.00'\<close>\<close>

definition holdsBalance :: "row \<Rightarrow> string \<Rightarrow> bool" where
  "holdsBalance user c =
     (case user c of
        None \<Rightarrow> False
      | Some s \<Rightarrow> s \<noteq> [] \<and> s \<noteq> ''0.00 '' @ c \<and> s \<noteq> ''0.00'')"

definition hasTransactions :: "row \<Rightarrow> bool" where
  "hasTransactions user =
     (case user ''Transaction Count'' of
        None \<Rightarrow> False
      | Some s \<Rightarrow> s \<noteq> [] \<and> js_gt (parseInt s) (Fin 0))"

definition countUser_p1 :: "activeByCurrency \<Rightarrow> row \<Rightarrow> activeByCurrency" where
  "countUser_p1 acc user =
     (if hasTransactions user then
        (let a0 = acc\<lparr>KES := Suc (KES acc)\<rparr>;
             a1 = (if holdsBalance user ''KES'' then a0\<lparr>KES := Suc (KES a0)\<rparr> else a0);
             a2 = (if holdsBalance user ''UGX'' then a1\<lparr>UGX := Suc (UGX a1)\<rparr> else a1);
             a3 = (if holdsBalance user ''NGN'' then a2\<lparr>NGN := Suc (NGN a2)\<rparr> else a2);
             a4 = (if holdsBalance user ''USD'' then a3\<lparr>USD := Suc (USD a3)\<rparr> else a3)
         in if holdsBalance user ''CNY'' then a4\<lparr>CNY := Suc (CNY a4)\<rparr> else a4)
      else acc)"

definition activeUsersByCurrency_p1 ::
  "(string \<Rightarrow> int option) \<Rightarrow> int \<Rightarrow> sheet \<Rightarrow> activeByCurrency"
where
  "activeUsersByCurrency_p1 parseDate thirtyDaysAgo wallet =
     foldl countUser_p1 \<lparr>KES = 0, UGX = 0, NGN = 0, USD = 0, CNY = 0\<rparr>
       (filter (isActive_p1 parseDate thirtyDaysAgo) wallet)"

section \<open>What the specification says\<close>

text \<open>
  The growth policy in the words of the specification: the relative change in percent
  over a positive previous value, \<open>100\<close> from a zero baseline to a positive value, \<open>0\<close>
  when both are zero. It says nothing about a negative previous value.
\<close>

definition growthPolicySpec :: "rat \<Rightarrow> rat \<Rightarrow> rat option" where
  "growthPolicySpec current previous =
     (if previous > 0 then Some ((current - previous) / previous * 100)
      else if previous = 0 \<and> current > 0 then Some 100
      else if previous = 0 \<and> current = 0 then Some 0
      else None)"

text \<open>
  A total in the base currency in the words of the specification: the sum, over the
  currency columns that are not empty in the row, of the amount times the factor of the
  currency, where the factor of KES is \<open>1\<close>.
\<close>

definition factorKES :: "string \<Rightarrow> jsnum" where
  "factorKES c = (if c = ''KES'' then Fin 1 else rateOf exchangeRateTable c)"

definition nonEmptyColumns :: "row \<Rightarrow> string list" where
  "nonEmptyColumns r = filter (\<lambda>c. case r c of None \<Rightarrow> False | Some s \<Rightarrow> s \<noteq> []) currencies"

definition amountOf :: "row \<Rightarrow> string \<Rightarrow> jsnum" where
  "amountOf r c = (case r c of None \<Rightarrow> NaN | Some s \<Rightarrow> parseFloat s)"

definition baseTotalSpec :: "row \<Rightarrow> jsnum" where
  "baseTotalSpec r =
     foldr js_add (map (\<lambda>c. js_mul (amountOf r c) (factorKES c)) (nonEmptyColumns r)) (Fin 0)"

text \<open>The period keys of a sheet without the \<open>Total\<close> row, and the distinct ones among them.\<close>

definition periodKeys :: "sheet \<Rightarrow> string option list" where
  "periodKeys sh = filter (\<lambda>k. k \<noteq> Some ''Total'') (map (\<lambda>r. r ''YearMonth'') sh)"

definition distinctPeriods :: "sheet \<Rightarrow> string option list" where
  "distinctPeriods sh = remdups (periodKeys sh)"

text \<open>Rounding to two decimal places, half up.\<close>

definition round2 :: "rat \<Rightarrow> rat" where
  "round2 x = of_int \<lfloor>x * 100 + 1 / 2\<rfloor> / 100"

text \<open>A growth in percent rounded to two decimal places, when it is a finite number.\<close>

definition roundedGrowth :: "jsnum option \<Rightarrow> rat option" where
  "roundedGrowth g = (case g of Some (Fin r) \<Rightarrow> Some (round2 r) | _ \<Rightarrow> None)"

text \<open>A balance that is blank or zero.\<close>

definition zeroOrBlank :: "string option \<Rightarrow> bool" where
  "zeroOrBlank cell = (case cell of None \<Rightarrow> True | Some s \<Rightarrow> s = [] \<or> parseFloat s = Fin 0)"

text \<open>
  The per-currency breakdown in the words of the specification: a user counts toward a
  currency when the last transaction passes the window test and the balance in the
  currency is positive.
\<close>

definition inRange :: "(string \<Rightarrow> int option) \<Rightarrow> int \<Rightarrow> int \<Rightarrow> row \<Rightarrow> bool" where
  "inRange parseDate startDate endDate user =
     (case user ''Last Transaction'' of
        None \<Rightarrow> False
      | Some lastTx \<Rightarrow>
          lastTx \<noteq> []
          \<and> (case parseDate lastTx of
                None \<Rightarrow> False
              | Some d \<Rightarrow> startDate \<le> d \<and> d \<le> endDate))"

definition countsToward ::
  "(string \<Rightarrow> int option) \<Rightarrow> int \<Rightarrow> int \<Rightarrow> string \<Rightarrow> row \<Rightarrow> bool"
where
  "countsToward parseDate startDate endDate c user =
     (inRange parseDate startDate endDate user \<and> positiveBalance (user c))"

text \<open>
  Two windows, each with the date parser of its run, select the same rows of the wallet
  sheet, under both window tests.
\<close>

definition sameSelection ::
  "(string \<Rightarrow> int option) \<Rightarrow> int \<Rightarrow> int \<Rightarrow> (string \<Rightarrow> int option) \<Rightarrow> int \<Rightarrow> int
     \<Rightarrow> sheet \<Rightarrow> bool"
where
  "sameSelection pd1 s1 e1 pd2 s2 e2 wallet =
     list_all (\<lambda>user. inRange pd1 s1 e1 user = inRange pd2 s2 e2 user
                    \<and> inWindow pd1 s1 e1 user = inWindow pd2 s2 e2 user) wallet"

text \<open>The part of a month-to-date entry that is read from the monthly sheets.\<close>

definition sheetPart :: "mtdEntry \<Rightarrow> mtdEntry" where
  "sheetPart e = e\<lparr>userGrowth := Fin 0, currentActiveUsers := Fin 0, previousActiveUsers := Fin 0\<rparr>"

text \<open>A row of the monthly sheets has no cell for the currency in either period.\<close>

definition absentIn :: "mtdRows \<Rightarrow> string \<Rightarrow> bool" where
  "absentIn rows c =
     (janTxRow rows c = None \<and> febTxRow rows c = None \<and> janVolRow rows c = None
      \<and> febVolRow rows c = None \<and> janRevRow rows c = None \<and> febRevRow rows c = None)"

text \<open>Every figure of a month-to-date entry that is read from the monthly sheets is zero.\<close>

definition zeroFigures :: "mtdEntry \<Rightarrow> bool" where
  "zeroFigures e =
     (transactionCountGrowth e = Fin 0 \<and> currentTransactionCount e = Fin 0
      \<and> previousTransactionCount e = Fin 0 \<and> transactionVolumeGrowth e = Fin 0
      \<and> currentTransactionVolume e = Fin 0 \<and> previousTransactionVolume e = Fin 0
      \<and> volumeKES e = Fin 0 \<and> previousVolumeKES e = Fin 0
      \<and> revenueGrowth e = Fin 0 \<and> currentRevenue e = Fin 0 \<and> previousRevenue e = Fin 0)"

section \<open>Sample inputs\<close>

text \<open>
  A date parser for the examples: it accepts the date-only ISO form \<open>YYYY-MM-DD\<close> of a
  valid calendar date, which denotes midnight UTC, and nothing else.
\<close>

definition daysFromCivil :: "int \<Rightarrow> int \<Rightarrow> int \<Rightarrow> int" where
  "daysFromCivil y m d =
     (let y' = (if m \<le> 2 then y - 1 else y);
          era = y' div 400;
          yoe = y' - era * 400;
          doy = (153 * (if m > 2 then m - 3 else m + 9) + 2) div 5 + d - 1;
          doe = yoe * 365 + yoe div 4 - yoe div 100 + doy
      in era * 146097 + doe - 719468)"

definition daysInMonth :: "int \<Rightarrow> int \<Rightarrow> int" where
  "daysInMonth y m =
     (if m = 2 then
        (if y mod 400 = 0 then 29 else if y mod 100 = 0 then 28
         else if y mod 4 = 0 then 29 else 28)
      else if m = 4 \<or> m = 6 \<or> m = 9 \<or> m = 11 then 30 else 31)"

definition digitsVal :: "string \<Rightarrow> int option" where
  "digitsVal s =
     (case takeDigits 0 0 s of
        (v, n, rest) \<Rightarrow> if n = length s \<and> rest = [] \<and> s \<noteq> [] then Some (int v) else None)"

definition isoDate :: "string \<Rightarrow> int option" where
  "isoDate s =
     (if length s = 10 \<and> s ! 4 = CHR ''-'' \<and> s ! 7 = CHR ''-'' then
        (case (digitsVal (take 4 s), digitsVal (take 2 (drop 5 s)), digitsVal (drop 8 s)) of
           (Some y, Some m, Some d) \<Rightarrow>
             if 1 \<le> m \<and> m \<le> 12 \<and> 1 \<le> d \<and> d \<le> daysInMonth y m
             then Some (daysFromCivil y m d * dayMs) else None
         | _ \<Rightarrow> None)
      else None)"

text \<open>The time zone UTC.\<close>

definition utcZone :: timeZone where
  "utcZone = \<lparr>tzaOfUtc = (\<lambda>t. 0), tzaOfLocal = (\<lambda>t. 0)\<rparr>"

text \<open>
  A time zone with daylight saving: five hours behind UTC, and four hours behind from
  2025-03-09 at 07:00:00 UTC, which is 02:00:00 local time.
\<close>

definition easternZone :: timeZone where
  "easternZone =
     \<lparr>tzaOfUtc = (\<lambda>t. if t < 1741503600000 then - 18000000 else - 14400000),
      tzaOfLocal = (\<lambda>t. if t < 1741485600000 then - 18000000 else - 14400000)\<rparr>"

definition clockMar27 :: clock where
  "clockMar27 = \<lparr>readEnd = 1743076800000, readStart = 1743076800000, readPrevious = 1743076800000\<rparr>"

text \<open>
  Four clocks: 2025-02-27 11:52:33 UTC, the same time on 2025-02-28, 2025-02-27 00:00:00
  UTC and 2025-04-27 00:00:00 UTC.
\<close>

definition clockFeb27 :: clock where
  "clockFeb27 = \<lparr>readEnd = 1740657153000, readStart = 1740657153000, readPrevious = 1740657153000\<rparr>"

definition clockFeb28 :: clock where
  "clockFeb28 = \<lparr>readEnd = 1740743553000, readStart = 1740743553000, readPrevious = 1740743553000\<rparr>"

definition clockFeb27Midnight :: clock where
  "clockFeb27Midnight =
     \<lparr>readEnd = 1740614400000, readStart = 1740614400000, readPrevious = 1740614400000\<rparr>"

definition clockApr27 :: clock where
  "clockApr27 = \<lparr>readEnd = 1745712000000, readStart = 1745712000000, readPrevious = 1745712000000\<rparr>"

text \<open>
  The scenario of the specification: KES revenue 1,000,000 in 2025-01; KES revenue
  1,200,000 and USD revenue 1,000 in 2025-02.
\<close>

definition scenarioBook :: workbook where
  "scenarioBook =
     \<lparr>walletBalances = [],
      monthlyTransactionCount =
        [[''YearMonth'' \<mapsto> ''2025-01''], [''YearMonth'' \<mapsto> ''2025-02'']],
      monthlyRevenue =
        [[''YearMonth'' \<mapsto> ''2025-01'', ''KES'' \<mapsto> ''1000000''],
         [''YearMonth'' \<mapsto> ''2025-02'', ''KES'' \<mapsto> ''1200000'', ''USD'' \<mapsto> ''1000'']],
      monthlyVolume = [],
      userStats = []\<rparr>"

text \<open>A transaction-count sheet with two rows for the same period.\<close>

definition duplicateBook :: workbook where
  "duplicateBook =
     \<lparr>walletBalances = [],
      monthlyTransactionCount =
        [[''YearMonth'' \<mapsto> ''2025-01'', ''Total'' \<mapsto> ''10''],
         [''YearMonth'' \<mapsto> ''2025-01'', ''Total'' \<mapsto> ''12'']],
      monthlyRevenue = [],
      monthlyVolume = [],
      userStats = []\<rparr>"

text \<open>A period with revenue after a period without any.\<close>

definition zeroBaselineBook :: workbook where
  "zeroBaselineBook =
     \<lparr>walletBalances = [],
      monthlyTransactionCount =
        [[''YearMonth'' \<mapsto> ''2025-01''], [''YearMonth'' \<mapsto> ''2025-02'']],
      monthlyRevenue = [[''YearMonth'' \<mapsto> ''2025-02'', ''KES'' \<mapsto> ''50'']],
      monthlyVolume = [],
      userStats = []\<rparr>"

text \<open>Users: one holds NGN only, one holds KES; the last transactions are in 2025.\<close>

definition ngnUser :: row where
  "ngnUser =
     [''Last Transaction'' \<mapsto> ''2025-02-15'', ''Transaction Count'' \<mapsto> ''3'',
      ''KES'' \<mapsto> ''0.00'', ''UGX'' \<mapsto> [], ''NGN'' \<mapsto> ''100.00'', ''USD'' \<mapsto> ''0.00'']"

definition kesUser :: row where
  "kesUser = [''Last Transaction'' \<mapsto> ''2025-01-28'', ''KES'' \<mapsto> ''10.00'']"

definition walletBook :: workbook where
  "walletBook =
     \<lparr>walletBalances = [ngnUser, kesUser],
      monthlyTransactionCount = [],
      monthlyRevenue = [],
      monthlyVolume = [],
      userStats = []\<rparr>"

text \<open>The sheets of the scenario together with the two users and a statistics sheet.\<close>

definition fullBook :: workbook where
  "fullBook =
     \<lparr>walletBalances = [ngnUser, kesUser],
      monthlyTransactionCount =
        [[''YearMonth'' \<mapsto> ''2025-01'', ''KES'' \<mapsto> ''40'', ''Total'' \<mapsto> ''40''],
         [''YearMonth'' \<mapsto> ''2025-02'', ''KES'' \<mapsto> ''50'', ''USD'' \<mapsto> ''2'',
          ''Total'' \<mapsto> ''52'']],
      monthlyRevenue =
        [[''YearMonth'' \<mapsto> ''2025-01'', ''KES'' \<mapsto> ''1000000''],
         [''YearMonth'' \<mapsto> ''2025-02'', ''KES'' \<mapsto> ''1200000'', ''USD'' \<mapsto> ''1000'']],
      monthlyVolume =
        [[''YearMonth'' \<mapsto> ''2025-01'', ''KES'' \<mapsto> ''800000'', ''Total'' \<mapsto> ''800000''],
         [''YearMonth'' \<mapsto> ''2025-02'', ''KES'' \<mapsto> ''900000'', ''Total'' \<mapsto> ''900000'']],
      userStats = [[''Metric'' \<mapsto> ''Total Users'', ''Value'' \<mapsto> ''1,234'']]\<rparr>"



section \<open>Properties\<close>

subsection \<open>Auxiliary facts\<close>

lemmas parse_defs = parseFloat_def unsignedLiteral_def digitVal_def isSpace_def exponentPart_def
  scale10_def parseInt10_def unsignedInt_def parseFloat_or0_def parseInt10_or0_def

lemma loadData_Inr:
  assumes "loadData pd tz clk wb = Inr out"
  shows "monthlyTrends out =
           transformTrends (monthlyTrendsRaw (monthlyTransactionCount wb) (monthlyRevenue wb) (monthlyVolume wb))"
    and "mtdGrowth out =
           mtdGrowthData (mtdRowsOf wb)
             (getActiveUsersByCurrencyInRange pd (walletBalances wb) (startDateCurrent tz clk) (endDateCurrent clk))
             (getActiveUsersByCurrencyInRange pd (walletBalances wb) (startDatePrevious tz clk) (endDatePrevious tz clk))"
    and "userSeries (growthRatesOf out) =
           transformGrowth (userSeries (growthRatesRaw
             (monthlyTrendsRaw (monthlyTransactionCount wb) (monthlyRevenue wb) (monthlyVolume wb))))"
    and "revenueSeries (growthRatesOf out) =
           transformGrowth (revenueSeries (growthRatesRaw
             (monthlyTrendsRaw (monthlyTransactionCount wb) (monthlyRevenue wb) (monthlyVolume wb))))"
    and "volumeSeries (growthRatesOf out) =
           transformGrowth (volumeSeries (growthRatesRaw
             (monthlyTrendsRaw (monthlyTransactionCount wb) (monthlyRevenue wb) (monthlyVolume wb))))"
    and "totalRevenue (keyMetricsOf out) = totalKesRevenue (monthlyRevenue wb)"
    and "totalTransactions (keyMetricsOf out) = totalTransactionsOf (monthlyTransactionCount wb)"
    and "totalUsersOf (userStats wb) (walletBalances wb) = Inr (totalUsers (keyMetricsOf out))"
    and "activeUsers (keyMetricsOf out) = distinctActiveUsers pd tz clk (walletBalances wb)"
    and "exchangeRates out = exchangeRateTable"
    and "currencyData out = []"
  using assms by (auto simp: loadData_def Let_def split: sum.splits)

lemma loadData_ok:
  assumes "totalUsersOf (userStats wb) (walletBalances wb) = Inr n"
  shows "loadData pd tz clk wb = Inr (projr (loadData pd tz clk wb))"
  using assms by (simp add: loadData_def Let_def)

lemma length_monthlyTrendsRaw:
  "length (monthlyTrendsRaw tx rv vl) = length (periodKeys tx)"
  by (simp add: monthlyTrendsRaw_def periodKeys_def filter_map o_def)

lemma growthRatesRaw_length:
  "length (userSeries (growthRatesRaw ts)) = length ts - 1"
  "length (revenueSeries (growthRatesRaw ts)) = length ts - 1"
  "length (volumeSeries (growthRatesRaw ts)) = length ts - 1"
  by (simp_all add: growthRatesRaw_def)

lemma growthRatesRaw_nth:
  assumes "Suc k < length ts"
  shows "userSeries (growthRatesRaw ts) ! k = growthRound users ts (Suc k)"
    and "revenueSeries (growthRatesRaw ts) ! k = growthRound revenue ts (Suc k)"
    and "volumeSeries (growthRatesRaw ts) ! k = growthRound volume ts (Suc k)"
  using assms by (simp_all add: growthRatesRaw_def)

lemma length_transformTrends: "length (transformTrends ts) = length ts"
  by (simp add: transformTrends_def)

lemma length_transformGrowth: "length (transformGrowth gs) = length gs"
  by (simp add: transformGrowth_def)

lemma transformTrends_nth:
  assumes "i < length ts"
  shows "month (transformTrends ts ! i) = month (ts ! i)"
    and "revenue (transformTrends ts ! i) = logFloor (revenue (ts ! i))"
    and "users (transformTrends ts ! i) = logFloor (users (ts ! i))"
    and "volume (transformTrends ts ! i) = logFloor (volume (ts ! i))"
    and "transactions (transformTrends ts ! i) = logFloor (transactions (ts ! i))"
  using assms by (simp_all add: transformTrends_def)

lemma reported_growth_point:
  assumes "Suc k < length ts"
  shows "transformGrowth (revenueSeries (growthRatesRaw ts)) ! k =
           \<lparr>g_month = month (transformTrends ts ! Suc k),
            g_growth = monthGrowth (revenue (ts ! Suc k)) (revenue (ts ! k)),
            g_value = revenue (transformTrends ts ! Suc k)\<rparr>"
    and "transformGrowth (userSeries (growthRatesRaw ts)) ! k =
           \<lparr>g_month = month (transformTrends ts ! Suc k),
            g_growth = monthGrowth (users (ts ! Suc k)) (users (ts ! k)),
            g_value = users (transformTrends ts ! Suc k)\<rparr>"
    and "transformGrowth (volumeSeries (growthRatesRaw ts)) ! k =
           \<lparr>g_month = month (transformTrends ts ! Suc k),
            g_growth = monthGrowth (volume (ts ! Suc k)) (volume (ts ! k)),
            g_value = volume (transformTrends ts ! Suc k)\<rparr>"
proof -
  have k: "k < length ts - 1" using assms by arith
  show "transformGrowth (revenueSeries (growthRatesRaw ts)) ! k =
           \<lparr>g_month = month (transformTrends ts ! Suc k),
            g_growth = monthGrowth (revenue (ts ! Suc k)) (revenue (ts ! k)),
            g_value = revenue (transformTrends ts ! Suc k)\<rparr>"
    using k assms
    by (simp add: transformGrowth_def growthRatesRaw_length growthRatesRaw_nth
        transformTrends_nth growthRound_def Let_def)
  show "transformGrowth (userSeries (growthRatesRaw ts)) ! k =
           \<lparr>g_month = month (transformTrends ts ! Suc k),
            g_growth = monthGrowth (users (ts ! Suc k)) (users (ts ! k)),
            g_value = users (transformTrends ts ! Suc k)\<rparr>"
    using k assms
    by (simp add: transformGrowth_def growthRatesRaw_length growthRatesRaw_nth
        transformTrends_nth growthRound_def Let_def)
  show "transformGrowth (volumeSeries (growthRatesRaw ts)) ! k =
           \<lparr>g_month = month (transformTrends ts ! Suc k),
            g_growth = monthGrowth (volume (ts ! Suc k)) (volume (ts ! k)),
            g_value = volume (transformTrends ts ! Suc k)\<rparr>"
    using k assms
    by (simp add: transformGrowth_def growthRatesRaw_length growthRatesRaw_nth
        transformTrends_nth growthRound_def Let_def)
qed

subsection \<open>Length of the monthly trend series\<close>

text \<open>
  Claim C6, counterexample. A transaction-count sheet with two rows for 2025-01 has
  one distinct period, and the dashboard reports two trend points.
\<close>

theorem duplicate_periods_counterexample:
  "loadData isoDate utcZone clockFeb27 duplicateBook
     = Inr (projr (loadData isoDate utcZone clockFeb27 duplicateBook))
   \<and> length (monthlyTrends (projr (loadData isoDate utcZone clockFeb27 duplicateBook))) = 2
   \<and> length (distinctPeriods (monthlyTransactionCount duplicateBook)) = 1"
proof -
  have ok: "loadData isoDate utcZone clockFeb27 duplicateBook = Inr (projr (loadData isoDate utcZone clockFeb27 duplicateBook))"
    by (rule loadData_ok) (simp add: duplicateBook_def totalUsersOf_def)
  have "length (monthlyTrends (projr (loadData isoDate utcZone clockFeb27 duplicateBook))) = 2"
    using loadData_Inr(1)[OF ok] by (simp add: transformTrends_def length_monthlyTrendsRaw periodKeys_def duplicateBook_def)
  moreover have "length (distinctPeriods (monthlyTransactionCount duplicateBook)) = 1"
    by (simp add: distinctPeriods_def periodKeys_def duplicateBook_def)
  ultimately show ?thesis using ok by simp
qed


text \<open>
  Claim C6, amended. The monthly trend series has one point for every row of the
  transaction-count sheet whose period is not \<open>Total\<close>, repeated periods included;
  when the periods of these rows are distinct, this is the number of distinct periods.
\<close>

theorem trend_length_counts_rows:
  assumes "loadData pd tz clk wb = Inr out"
  shows "length (monthlyTrends out) = length (periodKeys (monthlyTransactionCount wb))
         \<and> (distinct (periodKeys (monthlyTransactionCount wb)) \<longrightarrow>
              length (monthlyTrends out) = length (distinctPeriods (monthlyTransactionCount wb)))"
  using loadData_Inr(1)[OF assms]
  by (simp add: transformTrends_def length_monthlyTrendsRaw distinctPeriods_def distinct_remdups_id)

text \<open>Claim C6, witness: the scenario workbook, two distinct periods and two points.\<close>

theorem trend_length_counts_rows_witness:
  "loadData isoDate utcZone clockFeb27 scenarioBook = Inr (projr (loadData isoDate utcZone clockFeb27 scenarioBook))
   \<and> distinct (periodKeys (monthlyTransactionCount scenarioBook))
   \<and> length (monthlyTrends (projr (loadData isoDate utcZone clockFeb27 scenarioBook))) = 2
   \<and> length (distinctPeriods (monthlyTransactionCount scenarioBook)) = 2"
proof -
  have ok: "loadData isoDate utcZone clockFeb27 scenarioBook = Inr (projr (loadData isoDate utcZone clockFeb27 scenarioBook))"
    by (rule loadData_ok) (simp add: scenarioBook_def totalUsersOf_def)
  have d: "distinct (periodKeys (monthlyTransactionCount scenarioBook))"
    by (simp add: periodKeys_def scenarioBook_def)
  have n: "length (distinctPeriods (monthlyTransactionCount scenarioBook)) = 2"
    by (simp add: distinctPeriods_def periodKeys_def scenarioBook_def)
  from trend_length_counts_rows[OF ok] d n ok show ?thesis by simp
qed

subsection \<open>The month-over-month growth series\<close>

text \<open>
  Claim C7. When the trend series is not empty, each of the three growth series is one
  shorter than the trend series, and the point pushed in round \<open>i\<close> of the loop
  (\<open>1 \<le> i < length\<close>, stored at position \<open>i - 1\<close> of the series) carries the period
  of trend point \<open>i\<close>, its value, and the growth computed from the trend points \<open>i\<close>
  and \<open>i - 1\<close> before the floor for the logarithmic charts is applied.
\<close>

theorem growth_series_follow_trends:
  assumes "loadData pd tz clk wb = Inr out" and "monthlyTrends out \<noteq> []"
  shows "length (userSeries (growthRatesOf out)) = length (monthlyTrends out) - 1
         \<and> length (revenueSeries (growthRatesOf out)) = length (monthlyTrends out) - 1
         \<and> length (volumeSeries (growthRatesOf out)) = length (monthlyTrends out) - 1
         \<and> (\<forall>i. 1 \<le> i \<and> i < length (monthlyTrends out) \<longrightarrow>
               userSeries (growthRatesOf out) ! (i - 1) =
                 \<lparr>g_month = month (monthlyTrends out ! i),
                  g_growth =
                    monthGrowth
                      (users (monthlyTrendsRaw (monthlyTransactionCount wb) (monthlyRevenue wb)
                                (monthlyVolume wb) ! i))
                      (users (monthlyTrendsRaw (monthlyTransactionCount wb) (monthlyRevenue wb)
                                (monthlyVolume wb) ! (i - 1))),
                  g_value = users (monthlyTrends out ! i)\<rparr>
               \<and> revenueSeries (growthRatesOf out) ! (i - 1) =
                 \<lparr>g_month = month (monthlyTrends out ! i),
                  g_growth =
                    monthGrowth
                      (revenue (monthlyTrendsRaw (monthlyTransactionCount wb) (monthlyRevenue wb)
                                (monthlyVolume wb) ! i))
                      (revenue (monthlyTrendsRaw (monthlyTransactionCount wb) (monthlyRevenue wb)
                                (monthlyVolume wb) ! (i - 1))),
                  g_value = revenue (monthlyTrends out ! i)\<rparr>
               \<and> volumeSeries (growthRatesOf out) ! (i - 1) =
                 \<lparr>g_month = month (monthlyTrends out ! i),
                  g_growth =
                    monthGrowth
                      (volume (monthlyTrendsRaw (monthlyTransactionCount wb) (monthlyRevenue wb)
                                (monthlyVolume wb) ! i))
                      (volume (monthlyTrendsRaw (monthlyTransactionCount wb) (monthlyRevenue wb)
                                (monthlyVolume wb) ! (i - 1))),
                  g_value = volume (monthlyTrends out ! i)\<rparr>)"
proof -
  let ?raw = "monthlyTrendsRaw (monthlyTransactionCount wb) (monthlyRevenue wb) (monthlyVolume wb)"
  note parts = loadData_Inr[OF assms(1)]
  have lens: "length (userSeries (growthRatesOf out)) = length (monthlyTrends out) - 1"
    "length (revenueSeries (growthRatesOf out)) = length (monthlyTrends out) - 1"
    "length (volumeSeries (growthRatesOf out)) = length (monthlyTrends out) - 1"
    by (simp_all add: parts length_transformTrends length_transformGrowth growthRatesRaw_length)
  have points: "userSeries (growthRatesOf out) ! (i - 1) =
        \<lparr>g_month = month (monthlyTrends out ! i),
         g_growth = monthGrowth (users (?raw ! i)) (users (?raw ! (i - 1))),
         g_value = users (monthlyTrends out ! i)\<rparr>
      \<and> revenueSeries (growthRatesOf out) ! (i - 1) =
        \<lparr>g_month = month (monthlyTrends out ! i),
         g_growth = monthGrowth (revenue (?raw ! i)) (revenue (?raw ! (i - 1))),
         g_value = revenue (monthlyTrends out ! i)\<rparr>
      \<and> volumeSeries (growthRatesOf out) ! (i - 1) =
        \<lparr>g_month = month (monthlyTrends out ! i),
         g_growth = monthGrowth (volume (?raw ! i)) (volume (?raw ! (i - 1))),
         g_value = volume (monthlyTrends out ! i)\<rparr>"
    if i: "1 \<le> i \<and> i < length (monthlyTrends out)" for i
  proof -
    obtain k where k: "i = Suc k" using i by (cases i) auto
    have "Suc k < length ?raw" using i k by (simp add: parts length_transformTrends)
    from reported_growth_point[OF this] show ?thesis
      by (simp add: parts k)
  qed
  from lens points show ?thesis by blast
qed

text \<open>Claim C7, witness: the scenario workbook, whose one growth point is for 2025-02.\<close>

theorem growth_series_follow_trends_witness:
  "loadData isoDate utcZone clockFeb27 scenarioBook = Inr (projr (loadData isoDate utcZone clockFeb27 scenarioBook))
   \<and> monthlyTrends (projr (loadData isoDate utcZone clockFeb27 scenarioBook)) \<noteq> []
   \<and> length (revenueSeries (growthRatesOf (projr (loadData isoDate utcZone clockFeb27 scenarioBook)))) = 1
   \<and> g_month (revenueSeries (growthRatesOf (projr (loadData isoDate utcZone clockFeb27 scenarioBook))) ! 0)
       = Some ''2025-02''"
proof -
  let ?out = "projr (loadData isoDate utcZone clockFeb27 scenarioBook)"
  have ok: "loadData isoDate utcZone clockFeb27 scenarioBook = Inr ?out"
    by (rule loadData_ok) (simp add: scenarioBook_def totalUsersOf_def)
  have months: "map month (monthlyTrends ?out) = [Some ''2025-01'', Some ''2025-02'']"
    using loadData_Inr(1)[OF ok]
    by (simp add: transformTrends_def monthlyTrendsRaw_def scenarioBook_def Let_def o_def)
  have ne: "monthlyTrends ?out \<noteq> []"
    using months by auto
  have "length (map month (monthlyTrends ?out)) = 2"
    by (simp only: months) simp
  then have len: "length (monthlyTrends ?out) = 2"
    by simp
  have "map month (monthlyTrends ?out) ! 1 = Some ''2025-02''"
    by (simp only: months) simp
  then have m1: "month (monthlyTrends ?out ! 1) = Some ''2025-02''"
    using len by simp
  note T = growth_series_follow_trends[OF ok ne]
  from T have l: "length (revenueSeries (growthRatesOf ?out)) = 1"
    using len by simp
  from T have "1 \<le> (1::nat) \<and> 1 < length (monthlyTrends ?out) \<longrightarrow>
      g_month (revenueSeries (growthRatesOf ?out) ! (1 - 1)) = month (monthlyTrends ?out ! 1)"
    by (elim conjE allE[of _ "1::nat"]) simp
  with len m1 have "g_month (revenueSeries (growthRatesOf ?out) ! 0) = Some ''2025-02''"
    by simp
  with ok ne l show ?thesis by simp
qed

subsection \<open>The month-to-date table\<close>

lemma currencies_cases:
  assumes "c \<in> set currencies"
  obtains "c = ''KES''" | "c = ''UGX''" | "c = ''NGN''" | "c = ''USD''" | "c = ''CNY''"
  using assms unfolding currencies_def by (simp only: set_simps insert_iff empty_iff) blast

lemma rates_known:
  "rateOf exchangeRateTable ''UGX'' = Fin (10000 / 284659)"
  "rateOf exchangeRateTable ''NGN'' = Fin (100 / 1159)"
  "rateOf exchangeRateTable ''USD'' = Fin (1293827 / 10000)"
  "rateOf exchangeRateTable ''CNY'' = Fin (89 / 5)"
  "hasRate exchangeRateTable ''UGX''"
  "hasRate exchangeRateTable ''NGN''"
  "hasRate exchangeRateTable ''USD''"
  "hasRate exchangeRateTable ''CNY''"
  "\<not> hasRate exchangeRateTable ''KES''"
  by (simp_all add: rateOf_def hasRate_def getProperty_def inheritedNames_def
      exchangeRateTable_def)

lemma volToKES_zero:
  assumes "c \<in> set currencies"
  shows "volToKES (Fin 0) c = Fin 0"
  using assms by (rule currencies_cases) (simp_all add: volToKES_def rates_known)

lemma convertToKES_zero:
  assumes "c \<in> set currencies"
  shows "convertToKES (Fin 0) (Some c) exchangeRateTable = Fin 0"
  using assms by (rule currencies_cases) (simp_all add: convertToKES_def rates_known)


lemma currencies_mtdGrowthData:
  "map currency (mtdGrowthData rows ca pa) = currencies"
  "map currency (mtdGrowthData_p2 rows ca pa) = currencies"
  by (simp_all add: mtdGrowthData_def mtdGrowthData_p2_def mtdGrowthEntry_def
      mtdGrowthEntry_p2_def Let_def o_def)

lemma calcGrowth_zero: "calcGrowth (Fin 0) (Fin 0) = Fin 0"
  by (simp add: calcGrowth_def)

lemma absent_zeroFigures:
  assumes "absentIn rows c" and "c \<in> set currencies"
  shows "zeroFigures (mtdGrowthEntry rows ca pa c)"
    and "zeroFigures (mtdGrowthEntry_p2 rows ca pa c)"
  using assms
  by (simp_all add: absentIn_def zeroFigures_def mtdGrowthEntry_def mtdGrowthEntry_p2_def
      Let_def parseFloat_or0_def calcGrowth_zero volToKES_zero convertToKES_zero)

lemma mtd_entries:
  assumes "e \<in> set (mtdGrowthData rows ca pa)"
  shows "currency e \<in> set currencies" and "e = mtdGrowthEntry rows ca pa (currency e)"
  using assms by (auto simp: mtdGrowthData_def mtdGrowthEntry_def Let_def)

lemma mtd_entries_p2:
  assumes "e \<in> set (mtdGrowthData_p2 rows ca pa)"
  shows "currency e \<in> set currencies" and "e = mtdGrowthEntry_p2 rows ca pa (currency e)"
  using assms by (auto simp: mtdGrowthData_p2_def mtdGrowthEntry_p2_def Let_def)

text \<open>
  Claim C10. The month-to-date table has exactly the five entries KES, UGX, NGN, USD,
  CNY, in this order, whatever the sheets contain, both in \<open>FinancialDashboard.js\<close> and
  in the revision with calendar months; an entry whose currency has no cell in the rows
  of the two periods has all its sheet figures equal to zero.
\<close>

theorem mtd_table_fixed_currencies:
  assumes "loadData pd tz clk wb = Inr out"
  shows "map currency (mtdGrowth out) = [''KES'', ''UGX'', ''NGN'', ''USD'', ''CNY'']
         \<and> length (mtdGrowth out) = 5
         \<and> map currency (mtdGrowthData_p2 rows ca pa) = [''KES'', ''UGX'', ''NGN'', ''USD'', ''CNY'']
         \<and> length (mtdGrowthData_p2 rows ca pa) = 5
         \<and> (\<forall>e \<in> set (mtdGrowth out). absentIn (mtdRowsOf wb) (currency e) \<longrightarrow> zeroFigures e)
         \<and> (\<forall>e \<in> set (mtdGrowthData_p2 rows ca pa). absentIn rows (currency e) \<longrightarrow> zeroFigures e)"
proof -
  note m = loadData_Inr(2)[OF assms]
  have a: "map currency (mtdGrowth out) = [''KES'', ''UGX'', ''NGN'', ''USD'', ''CNY'']"
    by (simp add: m currencies_mtdGrowthData) (simp add: currencies_def)
  have b: "map currency (mtdGrowthData_p2 rows ca pa) = [''KES'', ''UGX'', ''NGN'', ''USD'', ''CNY'']"
    by (simp add: currencies_mtdGrowthData) (simp add: currencies_def)
  have la: "length (mtdGrowth out) = 5"
    by (simp add: m mtdGrowthData_def currencies_def)
  have lb: "length (mtdGrowthData_p2 rows ca pa) = 5"
    by (simp add: mtdGrowthData_p2_def currencies_def)
  have za: "zeroFigures e" if "e \<in> set (mtdGrowth out)" and "absentIn (mtdRowsOf wb) (currency e)" for e
  proof -
    let ?ca = "getActiveUsersByCurrencyInRange pd (walletBalances wb) (startDateCurrent tz clk) (endDateCurrent clk)"
    let ?pa = "getActiveUsersByCurrencyInRange pd (walletBalances wb) (startDatePrevious tz clk) (endDatePrevious tz clk)"
    from that(1) have mem: "e \<in> set (mtdGrowthData (mtdRowsOf wb) ?ca ?pa)"
      by (simp add: m)
    from absent_zeroFigures(1)[OF that(2) mtd_entries(1)[OF mem]]
    have "zeroFigures (mtdGrowthEntry (mtdRowsOf wb) ?ca ?pa (currency e))" .
    with mtd_entries(2)[OF mem] show ?thesis by simp
  qed
  have zb: "zeroFigures e" if "e \<in> set (mtdGrowthData_p2 rows ca pa)" and "absentIn rows (currency e)" for e
  proof -
    from absent_zeroFigures(2)[OF that(2) mtd_entries_p2(1)[OF that(1)]]
    have "zeroFigures (mtdGrowthEntry_p2 rows ca pa (currency e))" .
    with mtd_entries_p2(2)[OF that(1)] show ?thesis by simp
  qed
  from a b la lb za zb show ?thesis by blast
qed


text \<open>
  Claim C10, witness: the scenario workbook has no UGX column, and its second entry is
  the UGX entry with zero figures.
\<close>

theorem mtd_table_fixed_currencies_witness:
  "loadData isoDate utcZone clockFeb27 scenarioBook = Inr (projr (loadData isoDate utcZone clockFeb27 scenarioBook))
   \<and> map currency (mtdGrowth (projr (loadData isoDate utcZone clockFeb27 scenarioBook)))
       = [''KES'', ''UGX'', ''NGN'', ''USD'', ''CNY'']
   \<and> mtdGrowth (projr (loadData isoDate utcZone clockFeb27 scenarioBook)) ! 1
       \<in> set (mtdGrowth (projr (loadData isoDate utcZone clockFeb27 scenarioBook)))
   \<and> absentIn (mtdRowsOf scenarioBook)
        (currency (mtdGrowth (projr (loadData isoDate utcZone clockFeb27 scenarioBook)) ! 1))
   \<and> zeroFigures (mtdGrowth (projr (loadData isoDate utcZone clockFeb27 scenarioBook)) ! 1)"
proof -
  let ?out = "projr (loadData isoDate utcZone clockFeb27 scenarioBook)"
  have ok: "loadData isoDate utcZone clockFeb27 scenarioBook = Inr ?out"
    by (rule loadData_ok) (simp add: scenarioBook_def totalUsersOf_def)
  note T = mtd_table_fixed_currencies[OF ok, of "mtdRowsOf scenarioBook"
      "\<lparr>KES = 0, UGX = 0, NGN = 0, USD = 0, CNY = 0\<rparr>" "\<lparr>KES = 0, UGX = 0, NGN = 0, USD = 0, CNY = 0\<rparr>"]
  from T have cs: "map currency (mtdGrowth ?out) = [''KES'', ''UGX'', ''NGN'', ''USD'', ''CNY'']"
    and len: "length (mtdGrowth ?out) = 5" by blast+
  from len have mem: "mtdGrowth ?out ! 1 \<in> set (mtdGrowth ?out)"
    by simp
  have "map currency (mtdGrowth ?out) ! 1 = ''UGX''"
    by (simp only: cs) simp
  then have c1: "currency (mtdGrowth ?out ! 1) = ''UGX''"
    using len by simp
  have "absentIn (mtdRowsOf scenarioBook) ''UGX''"
    by (simp add: absentIn_def mtdRowsOf_def scenarioBook_def findPeriod_def orEmpty_def)
  then have ab: "absentIn (mtdRowsOf scenarioBook) (currency (mtdGrowth ?out ! 1))"
    by (simp only: c1)
  from T mem ab have "zeroFigures (mtdGrowth ?out ! 1)"
    by blast
  with ok cs mem ab show ?thesis by simp
qed

subsection \<open>The scenario of the specification\<close>

lemmas eval_defs = monthlyTrendsRaw_def findPeriod_def orEmpty_def revKES_def addPlain_def
  addConverted_def rates_known transformTrends_def transformGrowth_def growthRatesRaw_def
  growthRound_def monthGrowth_def js_sub_def logFloor_def totalKesRevenue_def Let_def

text \<open>
  Claim C5. On the scenario workbook (KES revenue 1,000,000 in 2025-01; KES revenue
  1,200,000 and USD revenue 1,000 in 2025-02; USD rate 129.3827) the dashboard reports
  a revenue of 1,329,382.7 KES for 2025-02, as the total revenue and as the revenue of
  the trend point, and a revenue growth over 2025-01 of 32.93827 percent, which is
  32.94 when rounded to two decimal places. Whatever the clock, the time zone and the
  date parser.
\<close>

theorem scenario_revenue_and_growth:
  "loadData pd tz clk scenarioBook = Inr (projr (loadData pd tz clk scenarioBook))
   \<and> totalRevenue (keyMetricsOf (projr (loadData pd tz clk scenarioBook))) = Fin (13293827 / 10)
   \<and> map month (monthlyTrends (projr (loadData pd tz clk scenarioBook)))
       = [Some ''2025-01'', Some ''2025-02'']
   \<and> map revenue (monthlyTrends (projr (loadData pd tz clk scenarioBook)))
       = [Fin 1000000, Fin (13293827 / 10)]
   \<and> map g_month (revenueSeries (growthRatesOf (projr (loadData pd tz clk scenarioBook))))
       = [Some ''2025-02'']
   \<and> map g_growth (revenueSeries (growthRatesOf (projr (loadData pd tz clk scenarioBook))))
       = [Some (Fin (3293827 / 100000))]
   \<and> map (roundedGrowth \<circ> g_growth)
         (revenueSeries (growthRatesOf (projr (loadData pd tz clk scenarioBook))))
       = [Some (3294 / 100)]"
proof -
  let ?out = "projr (loadData pd tz clk scenarioBook)"
  have ok: "loadData pd tz clk scenarioBook = Inr ?out"
    by (rule loadData_ok) (simp add: scenarioBook_def totalUsersOf_def)
  note parts = loadData_Inr[OF ok]
  have raw: "monthlyTrendsRaw (monthlyTransactionCount scenarioBook) (monthlyRevenue scenarioBook)
               (monthlyVolume scenarioBook)
             = [\<lparr>month = Some ''2025-01'', transactions = Fin 0, revenue = Fin 1000000,
                 users = Fin 0, volume = Fin 0\<rparr>,
                \<lparr>month = Some ''2025-02'', transactions = Fin 0, revenue = Fin (13293827 / 10),
                 users = Fin 0, volume = Fin 0\<rparr>]"
    by (simp add: scenarioBook_def eval_defs parse_defs)
  have total: "totalRevenue (keyMetricsOf ?out) = Fin (13293827 / 10)"
    by (simp add: parts(6)) (simp add: scenarioBook_def eval_defs parse_defs)
  have months: "map month (monthlyTrends ?out) = [Some ''2025-01'', Some ''2025-02'']"
    by (simp add: parts(1) raw) (simp add: transformTrends_def)
  have revs: "map revenue (monthlyTrends ?out) = [Fin 1000000, Fin (13293827 / 10)]"
    by (simp add: parts(1) raw) (simp add: transformTrends_def logFloor_def)
  have series: "revenueSeries (growthRatesOf ?out)
      = [\<lparr>g_month = Some ''2025-02'', g_growth = Some (Fin (3293827 / 100000)),
          g_value = Fin (13293827 / 10)\<rparr>]"
    by (simp add: parts(4) raw)
      (simp add: growthRatesRaw_def growthRound_def monthGrowth_def js_sub_def
        transformGrowth_def logFloor_def Let_def)
  have r: "round2 (3293827 / 100000) = 3294 / 100"
    by (simp add: round2_def floor_eq_iff)
  from ok total months revs series r show ?thesis
    by (simp add: roundedGrowth_def)
qed

subsection \<open>Currencies without a rate\<close>

lemma js_mul_one: "js_mul v (Fin 1) = v"
  by (cases v) (simp_all add: inf_of_sign_def)







subsection \<open>The growth policy\<close>

lemma calcGrowth_policy:
  assumes "growthPolicySpec c p = Some g"
  shows "calcGrowth (Fin c) (Fin p) = Fin g"
  using assms
  by (auto simp: growthPolicySpec_def calcGrowth_def js_sub_def split: if_splits)

lemma monthGrowth_policy:
  "monthGrowth (Fin c) (Fin p) = (if p > 0 then map_option Fin (growthPolicySpec c p) else None)"
  by (simp add: monthGrowth_def growthPolicySpec_def js_sub_def)

lemma mtd_entry_growths:
  assumes "e \<in> set (mtdGrowthData rows ca pa)"
  shows "transactionCountGrowth e = calcGrowth (currentTransactionCount e) (previousTransactionCount e)"
    and "transactionVolumeGrowth e = calcGrowth (currentTransactionVolume e) (previousTransactionVolume e)"
    and "revenueGrowth e = calcGrowth (currentRevenue e) (previousRevenue e)"
    and "userGrowth e = calcGrowth (currentActiveUsers e) (previousActiveUsers e)"
  using assms by (auto simp: mtdGrowthData_def mtdGrowthEntry_def Let_def)

text \<open>
  Claim C2, counterexample. With no revenue in 2025-01 and a revenue of 50 in 2025-02,
  the policy of the specification gives a growth of 100, and the month-over-month
  revenue series reports \<open>null\<close>.
\<close>

theorem zero_baseline_growth_counterexample:
  "loadData isoDate utcZone clockFeb27 zeroBaselineBook
     = Inr (projr (loadData isoDate utcZone clockFeb27 zeroBaselineBook))
   \<and> map revenue (monthlyTrendsRaw (monthlyTransactionCount zeroBaselineBook)
         (monthlyRevenue zeroBaselineBook) (monthlyVolume zeroBaselineBook)) = [Fin 0, Fin 50]
   \<and> map g_growth (revenueSeries (growthRatesOf (projr (loadData isoDate utcZone clockFeb27 zeroBaselineBook))))
       = [None]
   \<and> growthPolicySpec 50 0 = Some 100"
proof -
  let ?out = "projr (loadData isoDate utcZone clockFeb27 zeroBaselineBook)"
  have ok: "loadData isoDate utcZone clockFeb27 zeroBaselineBook = Inr ?out"
    by (rule loadData_ok) (simp add: zeroBaselineBook_def totalUsersOf_def)
  have raw: "monthlyTrendsRaw (monthlyTransactionCount zeroBaselineBook)
               (monthlyRevenue zeroBaselineBook) (monthlyVolume zeroBaselineBook)
             = [\<lparr>month = Some ''2025-01'', transactions = Fin 0, revenue = Fin 0,
                 users = Fin 0, volume = Fin 0\<rparr>,
                \<lparr>month = Some ''2025-02'', transactions = Fin 0, revenue = Fin 50,
                 users = Fin 0, volume = Fin 0\<rparr>]"
    by (simp add: zeroBaselineBook_def eval_defs parse_defs)
  have series: "map g_growth (revenueSeries (growthRatesOf ?out)) = [None]"
    by (simp add: loadData_Inr(4)[OF ok] raw)
      (simp add: growthRatesRaw_def growthRound_def monthGrowth_def transformGrowth_def Let_def)
  have "growthPolicySpec 50 0 = Some 100"
    by (simp add: growthPolicySpec_def)
  with ok raw series show ?thesis by simp
qed

text \<open>
  Claim C2, amended. In the month-to-date table every growth (transaction count,
  volume, revenue, active users) follows the policy: the relative change in percent over
  a positive previous value, \<open>100\<close> from zero to a positive value, \<open>0\<close> when both are
  zero. In the month-over-month series a growth is the relative change in percent over
  a positive previous value and \<open>null\<close> when the previous value is not positive.
\<close>

theorem growth_policy_by_series:
  assumes "loadData pd tz clk wb = Inr out"
  shows "(\<forall>e \<in> set (mtdGrowth out). \<forall>c p g. growthPolicySpec c p = Some g \<longrightarrow>
            (currentTransactionCount e = Fin c \<and> previousTransactionCount e = Fin p
               \<longrightarrow> transactionCountGrowth e = Fin g)
          \<and> (currentTransactionVolume e = Fin c \<and> previousTransactionVolume e = Fin p
               \<longrightarrow> transactionVolumeGrowth e = Fin g)
          \<and> (currentRevenue e = Fin c \<and> previousRevenue e = Fin p
               \<longrightarrow> revenueGrowth e = Fin g)
          \<and> (currentActiveUsers e = Fin c \<and> previousActiveUsers e = Fin p
               \<longrightarrow> userGrowth e = Fin g))
       \<and> (\<forall>i c p. 1 \<le> i \<and> i < length (monthlyTrends out) \<longrightarrow>
            (users (monthlyTrendsRaw (monthlyTransactionCount wb) (monthlyRevenue wb)
                      (monthlyVolume wb) ! i) = Fin c
             \<and> users (monthlyTrendsRaw (monthlyTransactionCount wb) (monthlyRevenue wb)
                      (monthlyVolume wb) ! (i - 1)) = Fin p
               \<longrightarrow> g_growth (userSeries (growthRatesOf out) ! (i - 1))
                    = (if p > 0 then map_option Fin (growthPolicySpec c p) else None))
          \<and> (revenue (monthlyTrendsRaw (monthlyTransactionCount wb) (monthlyRevenue wb)
                      (monthlyVolume wb) ! i) = Fin c
             \<and> revenue (monthlyTrendsRaw (monthlyTransactionCount wb) (monthlyRevenue wb)
                      (monthlyVolume wb) ! (i - 1)) = Fin p
               \<longrightarrow> g_growth (revenueSeries (growthRatesOf out) ! (i - 1))
                    = (if p > 0 then map_option Fin (growthPolicySpec c p) else None))
          \<and> (volume (monthlyTrendsRaw (monthlyTransactionCount wb) (monthlyRevenue wb)
                      (monthlyVolume wb) ! i) = Fin c
             \<and> volume (monthlyTrendsRaw (monthlyTransactionCount wb) (monthlyRevenue wb)
                      (monthlyVolume wb) ! (i - 1)) = Fin p
               \<longrightarrow> g_growth (volumeSeries (growthRatesOf out) ! (i - 1))
                    = (if p > 0 then map_option Fin (growthPolicySpec c p) else None)))"
proof -
  let ?raw = "monthlyTrendsRaw (monthlyTransactionCount wb) (monthlyRevenue wb) (monthlyVolume wb)"
  note parts = loadData_Inr[OF assms]
  have mtd: "(currentTransactionCount e = Fin c \<and> previousTransactionCount e = Fin p
               \<longrightarrow> transactionCountGrowth e = Fin g)
          \<and> (currentTransactionVolume e = Fin c \<and> previousTransactionVolume e = Fin p
               \<longrightarrow> transactionVolumeGrowth e = Fin g)
          \<and> (currentRevenue e = Fin c \<and> previousRevenue e = Fin p
               \<longrightarrow> revenueGrowth e = Fin g)
          \<and> (currentActiveUsers e = Fin c \<and> previousActiveUsers e = Fin p
               \<longrightarrow> userGrowth e = Fin g)"
    if e: "e \<in> set (mtdGrowth out)" and g: "growthPolicySpec c p = Some g" for e c p g
  proof -
    from e have mem: "e \<in> set (mtdGrowthData (mtdRowsOf wb)
        (getActiveUsersByCurrencyInRange pd (walletBalances wb) (startDateCurrent tz clk) (endDateCurrent clk))
        (getActiveUsersByCurrencyInRange pd (walletBalances wb) (startDatePrevious tz clk) (endDatePrevious tz clk)))"
      by (simp add: parts(2))
    show ?thesis
      by (simp add: mtd_entry_growths[OF mem] calcGrowth_policy[OF g])
  qed
  have mom: "(users (?raw ! i) = Fin c \<and> users (?raw ! (i - 1)) = Fin p
               \<longrightarrow> g_growth (userSeries (growthRatesOf out) ! (i - 1))
                    = (if p > 0 then map_option Fin (growthPolicySpec c p) else None))
          \<and> (revenue (?raw ! i) = Fin c \<and> revenue (?raw ! (i - 1)) = Fin p
               \<longrightarrow> g_growth (revenueSeries (growthRatesOf out) ! (i - 1))
                    = (if p > 0 then map_option Fin (growthPolicySpec c p) else None))
          \<and> (volume (?raw ! i) = Fin c \<and> volume (?raw ! (i - 1)) = Fin p
               \<longrightarrow> g_growth (volumeSeries (growthRatesOf out) ! (i - 1))
                    = (if p > 0 then map_option Fin (growthPolicySpec c p) else None))"
    if i: "1 \<le> i \<and> i < length (monthlyTrends out)" for i c p
  proof -
    obtain k where k: "i = Suc k" using i by (cases i) auto
    have "Suc k < length ?raw" using i k by (simp add: parts length_transformTrends)
    from reported_growth_point[OF this] show ?thesis
      by (simp add: parts k monthGrowth_policy)
  qed
  from mtd mom show ?thesis by blast
qed


text \<open>
  Claim C2, witness: the scenario workbook, where the KES revenue grows by 20 percent
  in the month-to-date table and the revenue in KES by 32.93827 percent in the series.
\<close>

theorem growth_policy_by_series_witness:
  "loadData isoDate utcZone clockFeb27 scenarioBook = Inr (projr (loadData isoDate utcZone clockFeb27 scenarioBook))
   \<and> mtdGrowth (projr (loadData isoDate utcZone clockFeb27 scenarioBook)) ! 0
       \<in> set (mtdGrowth (projr (loadData isoDate utcZone clockFeb27 scenarioBook)))
   \<and> currentRevenue (mtdGrowth (projr (loadData isoDate utcZone clockFeb27 scenarioBook)) ! 0) = Fin 1200000
   \<and> previousRevenue (mtdGrowth (projr (loadData isoDate utcZone clockFeb27 scenarioBook)) ! 0) = Fin 1000000
   \<and> growthPolicySpec 1200000 1000000 = Some 20
   \<and> revenueGrowth (mtdGrowth (projr (loadData isoDate utcZone clockFeb27 scenarioBook)) ! 0) = Fin 20
   \<and> g_growth (revenueSeries (growthRatesOf (projr (loadData isoDate utcZone clockFeb27 scenarioBook))) ! 0)
       = Some (Fin (3293827 / 100000))"
proof -
  let ?out = "projr (loadData isoDate utcZone clockFeb27 scenarioBook)"
  let ?raw = "monthlyTrendsRaw (monthlyTransactionCount scenarioBook) (monthlyRevenue scenarioBook)
               (monthlyVolume scenarioBook)"
  have ok: "loadData isoDate utcZone clockFeb27 scenarioBook = Inr ?out"
    by (rule loadData_ok) (simp add: scenarioBook_def totalUsersOf_def)
  note parts = loadData_Inr[OF ok]
  have len: "length (mtdGrowth ?out) = 5"
    by (simp add: parts(2) mtdGrowthData_def currencies_def)
  then have mem: "mtdGrowth ?out ! 0 \<in> set (mtdGrowth ?out)"
    by simp
  have cur: "currentRevenue (mtdGrowth ?out ! 0) = Fin 1200000"
    and prev: "previousRevenue (mtdGrowth ?out ! 0) = Fin 1000000"
    by (simp_all add: parts(2) mtdGrowthData_def currencies_def mtdGrowthEntry_def Let_def)
      (simp_all add: mtdRowsOf_def scenarioBook_def findPeriod_def orEmpty_def parse_defs)
  have pol: "growthPolicySpec 1200000 1000000 = Some 20"
    by (simp add: growthPolicySpec_def)
  note T = growth_policy_by_series[OF ok]
  from T mem pol cur prev have mtd: "revenueGrowth (mtdGrowth ?out ! 0) = Fin 20"
    by blast
  have raw: "?raw
             = [\<lparr>month = Some ''2025-01'', transactions = Fin 0, revenue = Fin 1000000,
                 users = Fin 0, volume = Fin 0\<rparr>,
                \<lparr>month = Some ''2025-02'', transactions = Fin 0, revenue = Fin (13293827 / 10),
                 users = Fin 0, volume = Fin 0\<rparr>]"
    by (simp add: scenarioBook_def eval_defs parse_defs)
  have i: "1 \<le> (1::nat) \<and> 1 < length (monthlyTrends ?out)"
    by (simp add: parts(1) length_transformTrends raw)
  have c: "revenue (?raw ! 1) = Fin (13293827 / 10)" and p: "revenue (?raw ! (1 - 1)) = Fin 1000000"
    by (simp_all add: raw)
  from T[THEN conjunct2, rule_format, OF i, THEN conjunct2, THEN conjunct1, rule_format, OF conjI, OF c p]
  have "g_growth (revenueSeries (growthRatesOf ?out) ! (1 - 1))
        = (if (1000000::rat) > 0 then map_option Fin (growthPolicySpec (13293827 / 10) 1000000) else None)" .
  then have mom: "g_growth (revenueSeries (growthRatesOf ?out) ! 0) = Some (Fin (3293827 / 100000))"
    by (simp add: growthPolicySpec_def)
  from ok mem cur prev pol mtd mom show ?thesis by simp
qed

subsection \<open>Totals in the base currency\<close>

lemma js_add_commute: "js_add a b = js_add b a"
  by (cases a; cases b) simp_all

lemma js_add_assoc: "js_add (js_add a b) c = js_add a (js_add b c)"
  by (cases a; cases b; cases c) simp_all

lemma js_add_zero: "js_add x (Fin 0) = x" "js_add (Fin 0) x = x"
  by (cases x; simp)+

lemma five_terms:
  "js_add (js_add (js_add (js_add (js_add (Fin 0) k) n) u) d) y
   = js_add k (js_add u (js_add n (js_add d (js_add y (Fin 0)))))"
proof -
  have "js_add n u = js_add u n" by (rule js_add_commute)
  then show ?thesis by (simp add: js_add_assoc js_add_zero)
qed

lemma addConverted_contribution:
  "addConverted tot (r c) rate
   = js_add tot (if (case r c of None \<Rightarrow> False | Some s \<Rightarrow> s \<noteq> [])
                 then js_mul (amountOf r c) rate else Fin 0)"
  by (cases "r c") (simp_all add: addConverted_def amountOf_def js_add_zero)

lemma addPlain_contribution:
  "addPlain tot (r c)
   = js_add tot (if (case r c of None \<Rightarrow> False | Some s \<Rightarrow> s \<noteq> [])
                 then js_mul (amountOf r c) (Fin 1) else Fin 0)"
  by (cases "r c") (simp_all add: addPlain_def amountOf_def js_add_zero js_mul_one)

lemma sum_over_filter:
  "foldr js_add (map f (filter P xs)) (Fin 0)
   = foldr js_add (map (\<lambda>c. if P c then f c else Fin 0) xs) (Fin 0)"
  by (induction xs) (simp_all add: js_add_zero)

lemma factorKES_known:
  "factorKES ''KES'' = Fin 1"
  "factorKES ''UGX'' = rateOf exchangeRateTable ''UGX''"
  "factorKES ''NGN'' = rateOf exchangeRateTable ''NGN''"
  "factorKES ''USD'' = rateOf exchangeRateTable ''USD''"
  "factorKES ''CNY'' = rateOf exchangeRateTable ''CNY''"
  by (simp_all add: factorKES_def)

lemma revKES_spec: "revKES r = baseTotalSpec r"
proof -
  have a: "baseTotalSpec r
        = foldr js_add
            (map (\<lambda>c. if (case r c of None \<Rightarrow> False | Some s \<Rightarrow> s \<noteq> [])
                       then js_mul (amountOf r c) (factorKES c) else Fin 0) currencies) (Fin 0)"
    unfolding baseTotalSpec_def nonEmptyColumns_def by (rule sum_over_filter)
  have b: "foldr js_add (map g currencies) (Fin 0)
        = js_add (g ''KES'') (js_add (g ''UGX'') (js_add (g ''NGN'') (js_add (g ''USD'')
            (js_add (g ''CNY'') (Fin 0)))))" for g :: "string \<Rightarrow> jsnum"
    by (simp add: currencies_def)
  show ?thesis
    unfolding a b
    by (simp only: revKES_def Let_def addConverted_contribution addPlain_contribution
        five_terms factorKES_known)
qed

lemma js_div_as_mul:
  assumes "d \<noteq> 0"
  shows "js_div x (Fin d) = js_mul x (Fin (1 / d))"
  using assms by (cases x) (auto simp: inf_of_sign_def zero_less_mult_iff mult_less_0_iff)

lemma addDivided_as_converted:
  assumes "d \<noteq> 0"
  shows "addDivided tot cell (Fin d) = addConverted tot cell (Fin (1 / d))"
  using assms by (simp add: addDivided_def addConverted_def js_div_as_mul split: option.splits)

lemma totalRevenue_p1_eq: "totalRevenue_p1 sh = totalKesRevenue sh"
proof (cases "findPeriod (Some ''2025-02'') sh")
  case None
  then show ?thesis by (simp add: totalRevenue_p1_def totalKesRevenue_def)
next
  case (Some febData)
  have n: "addDivided t c (Fin (1159 / 100)) = addConverted t c (rateOf exchangeRateTable ''NGN'')" for t c
    using addDivided_as_converted[of "1159 / 100" t c] by (simp add: rates_known)
  have u: "addDivided t c (Fin (284659 / 10000)) = addConverted t c (rateOf exchangeRateTable ''UGX'')" for t c
    using addDivided_as_converted[of "284659 / 10000" t c] by (simp add: rates_known)
  have d: "Fin (1293827 / 10000) = rateOf exchangeRateTable ''USD''"
    and y: "Fin (1780 / 100) = rateOf exchangeRateTable ''CNY''"
    by (simp_all add: rates_known)
  show ?thesis
    unfolding totalRevenue_p1_def totalKesRevenue_def revKES_def Some option.case Let_def n u d y ..
qed

lemma monthlyTrendsRaw_revenue:
  assumes "i < length (monthlyTrendsRaw tx rv vl)"
  shows "revenue (monthlyTrendsRaw tx rv vl ! i)
         = revKES (orEmpty (findPeriod (month (monthlyTrendsRaw tx rv vl ! i)) rv))"
  using assms by (simp add: monthlyTrendsRaw_def Let_def)

text \<open>
  Claim C4, counterexample. Period 2025-01 has no revenue row, so the sum over its
  currency columns is \<open>0\<close>, and the trend point reported for it has the revenue \<open>0.1\<close>.
\<close>

theorem floored_trend_revenue_counterexample:
  "loadData isoDate utcZone clockFeb27 zeroBaselineBook
     = Inr (projr (loadData isoDate utcZone clockFeb27 zeroBaselineBook))
   \<and> map month (monthlyTrends (projr (loadData isoDate utcZone clockFeb27 zeroBaselineBook)))
       = [Some ''2025-01'', Some ''2025-02'']
   \<and> map revenue (monthlyTrends (projr (loadData isoDate utcZone clockFeb27 zeroBaselineBook)))
       = [Fin (1 / 10), Fin 50]
   \<and> baseTotalSpec (orEmpty (findPeriod (Some ''2025-01'') (monthlyRevenue zeroBaselineBook)))
       = Fin 0"
proof -
  let ?out = "projr (loadData isoDate utcZone clockFeb27 zeroBaselineBook)"
  have ok: "loadData isoDate utcZone clockFeb27 zeroBaselineBook = Inr ?out"
    by (rule loadData_ok) (simp add: zeroBaselineBook_def totalUsersOf_def)
  have raw: "monthlyTrendsRaw (monthlyTransactionCount zeroBaselineBook)
               (monthlyRevenue zeroBaselineBook) (monthlyVolume zeroBaselineBook)
             = [\<lparr>month = Some ''2025-01'', transactions = Fin 0, revenue = Fin 0,
                 users = Fin 0, volume = Fin 0\<rparr>,
                \<lparr>month = Some ''2025-02'', transactions = Fin 0, revenue = Fin 50,
                 users = Fin 0, volume = Fin 0\<rparr>]"
    by (simp add: zeroBaselineBook_def eval_defs parse_defs)
  have months: "map month (monthlyTrends ?out) = [Some ''2025-01'', Some ''2025-02'']"
    and revs: "map revenue (monthlyTrends ?out) = [Fin (1 / 10), Fin 50]"
    by (simp_all add: loadData_Inr(1)[OF ok] raw) (simp_all add: transformTrends_def logFloor_def)
  have "baseTotalSpec (orEmpty (findPeriod (Some ''2025-01'') (monthlyRevenue zeroBaselineBook))) = Fin 0"
    by (simp add: zeroBaselineBook_def findPeriod_def orEmpty_def baseTotalSpec_def
        nonEmptyColumns_def currencies_def)
  with ok months revs show ?thesis by simp
qed

text \<open>
  Claim C4, amended. The total revenue of the current period, in
  \<open>FinancialDashboard.js\<close> and in the revision of \<open>unnamed/part_001\<close>, is the sum over
  the non-empty currency columns of the 2025-02 revenue row of the amount times the
  factor of the currency, each taken once, and \<open>0\<close> without such a row. The revenue
  computed for a trend point is that sum for the first revenue row of its period; the
  trend point that is reported holds the sum, except that a sum that is zero or negative
  is reported as \<open>0.1\<close>.
\<close>

theorem base_totals_convert_once:
  assumes "loadData pd tz clk wb = Inr out"
  shows "totalRevenue (keyMetricsOf out)
           = (case findPeriod (Some ''2025-02'') (monthlyRevenue wb) of
                None \<Rightarrow> Fin 0 | Some r \<Rightarrow> baseTotalSpec r)
         \<and> totalRevenue_p1 (monthlyRevenue wb)
           = (case findPeriod (Some ''2025-02'') (monthlyRevenue wb) of
                None \<Rightarrow> Fin 0 | Some r \<Rightarrow> baseTotalSpec r)
         \<and> (\<forall>i < length (monthlyTrends out).
               revenue (monthlyTrendsRaw (monthlyTransactionCount wb) (monthlyRevenue wb)
                          (monthlyVolume wb) ! i)
                 = baseTotalSpec (orEmpty (findPeriod (month (monthlyTrends out ! i)) (monthlyRevenue wb)))
               \<and> revenue (monthlyTrends out ! i)
                 = (if js_le (baseTotalSpec (orEmpty (findPeriod (month (monthlyTrends out ! i))
                                (monthlyRevenue wb)))) (Fin 0)
                    then Fin (1 / 10)
                    else baseTotalSpec (orEmpty (findPeriod (month (monthlyTrends out ! i))
                                (monthlyRevenue wb)))))"
proof -
  let ?raw = "monthlyTrendsRaw (monthlyTransactionCount wb) (monthlyRevenue wb) (monthlyVolume wb)"
  note parts = loadData_Inr[OF assms]
  have t: "totalKesRevenue (monthlyRevenue wb)
           = (case findPeriod (Some ''2025-02'') (monthlyRevenue wb) of
                None \<Rightarrow> Fin 0 | Some r \<Rightarrow> baseTotalSpec r)"
    by (simp add: totalKesRevenue_def revKES_spec split: option.splits)
  have pts: "revenue (?raw ! i)
                 = baseTotalSpec (orEmpty (findPeriod (month (monthlyTrends out ! i)) (monthlyRevenue wb)))
               \<and> revenue (monthlyTrends out ! i)
                 = (if js_le (baseTotalSpec (orEmpty (findPeriod (month (monthlyTrends out ! i))
                                (monthlyRevenue wb)))) (Fin 0)
                    then Fin (1 / 10)
                    else baseTotalSpec (orEmpty (findPeriod (month (monthlyTrends out ! i))
                                (monthlyRevenue wb))))"
    if "i < length (monthlyTrends out)" for i
  proof -
    from that have i: "i < length ?raw"
      by (simp add: parts(1) length_transformTrends)
    show ?thesis
      by (simp add: parts(1) transformTrends_nth[OF i] monthlyTrendsRaw_revenue[OF i]
          revKES_spec logFloor_def)
  qed
  from t pts show ?thesis
    by (simp add: parts(6) totalRevenue_p1_eq)
qed


text \<open>
  Claim C4, witness: the scenario workbook, whose revenue row of 2025-02 sums to
  1,329,382.7 KES, the total revenue and the revenue of the second trend point.
\<close>

theorem base_totals_convert_once_witness:
  "loadData isoDate utcZone clockFeb27 scenarioBook = Inr (projr (loadData isoDate utcZone clockFeb27 scenarioBook))
   \<and> 1 < length (monthlyTrends (projr (loadData isoDate utcZone clockFeb27 scenarioBook)))
   \<and> baseTotalSpec [''YearMonth'' \<mapsto> ''2025-02'', ''KES'' \<mapsto> ''1200000'', ''USD'' \<mapsto> ''1000'']
       = Fin (13293827 / 10)
   \<and> totalRevenue (keyMetricsOf (projr (loadData isoDate utcZone clockFeb27 scenarioBook)))
       = Fin (13293827 / 10)
   \<and> revenue (monthlyTrends (projr (loadData isoDate utcZone clockFeb27 scenarioBook)) ! 1)
       = Fin (13293827 / 10)"
proof -
  let ?out = "projr (loadData isoDate utcZone clockFeb27 scenarioBook)"
  let ?feb = "[''YearMonth'' \<mapsto> ''2025-02'', ''KES'' \<mapsto> ''1200000'', ''USD'' \<mapsto> ''1000'']"
  have ok: "loadData isoDate utcZone clockFeb27 scenarioBook = Inr ?out"
    by (rule loadData_ok) (simp add: scenarioBook_def totalUsersOf_def)
  have months: "map month (monthlyTrends ?out) = [Some ''2025-01'', Some ''2025-02'']"
    using loadData_Inr(1)[OF ok]
    by (simp add: transformTrends_def monthlyTrendsRaw_def scenarioBook_def Let_def o_def)
  have "length (map month (monthlyTrends ?out)) = 2"
    by (simp only: months) simp
  then have len: "1 < length (monthlyTrends ?out)"
    by simp
  have "map month (monthlyTrends ?out) ! 1 = Some ''2025-02''"
    by (simp only: months) simp
  then have m1: "month (monthlyTrends ?out ! 1) = Some ''2025-02''"
    using len by simp
  have feb: "findPeriod (Some ''2025-02'') (monthlyRevenue scenarioBook) = Some ?feb"
    by (simp add: findPeriod_def scenarioBook_def)
  have spec: "baseTotalSpec ?feb = Fin (13293827 / 10)"
    by (simp add: baseTotalSpec_def nonEmptyColumns_def currencies_def amountOf_def
        factorKES_def rates_known parse_defs)
  note T = base_totals_convert_once[OF ok]
  from T have total: "totalRevenue (keyMetricsOf ?out) = Fin (13293827 / 10)"
    by (simp add: feb spec)
  from T len have "revenue (monthlyTrends ?out ! 1)
      = (if js_le (baseTotalSpec (orEmpty (findPeriod (month (monthlyTrends ?out ! 1))
                      (monthlyRevenue scenarioBook)))) (Fin 0)
         then Fin (1 / 10)
         else baseTotalSpec (orEmpty (findPeriod (month (monthlyTrends ?out ! 1))
                      (monthlyRevenue scenarioBook))))"
    by blast
  then have point: "revenue (monthlyTrends ?out ! 1) = Fin (13293827 / 10)"
    by (simp only: m1 feb) (simp add: orEmpty_def spec)
  from ok len spec total point show ?thesis by simp
qed

subsection \<open>Active users by currency\<close>

lemmas date_defs = isoDate_def digitsVal_def digitVal_def daysInMonth_def daysFromCivil_def
  dayMs_def

lemmas window_defs = startDateCurrent_def endDateCurrent_def startDatePrevious_def
  endDatePrevious_def setDateBack_def localTime_def utcTime_def dayMs_def

lemma zeroOrBlank_not_positive:
  assumes "zeroOrBlank cell"
  shows "\<not> positiveBalance cell"
  using assms by (auto simp: zeroOrBlank_def positiveBalance_def split: option.splits)

lemma countUser_fields:
  "countUser user acc =
     \<lparr>KES = KES acc + (if positiveBalance (user ''KES'') then 1 else 0),
      UGX = UGX acc + (if positiveBalance (user ''UGX'') then 1 else 0),
      NGN = NGN acc + (if positiveBalance (user ''NGN'') then 1 else 0),
      USD = USD acc + (if positiveBalance (user ''USD'') then 1 else 0),
      CNY = CNY acc + (if positiveBalance (user ''CNY'') then 1 else 0)\<rparr>"
  by (cases acc) (simp add: countUser_def Let_def)

lemma activeStep_fields:
  "activeStep pd s e acc user =
     \<lparr>KES = KES acc + (if countsToward pd s e ''KES'' user then 1 else 0),
      UGX = UGX acc + (if countsToward pd s e ''UGX'' user then 1 else 0),
      NGN = NGN acc + (if countsToward pd s e ''NGN'' user then 1 else 0),
      USD = USD acc + (if countsToward pd s e ''USD'' user then 1 else 0),
      CNY = CNY acc + (if countsToward pd s e ''CNY'' user then 1 else 0)\<rparr>"
proof (cases "inRange pd s e user")
  case True
  then have "activeStep pd s e acc user = countUser user acc"
    by (auto simp: activeStep_def inRange_def split: option.splits)
  with True show ?thesis
    by (simp add: countUser_fields countsToward_def)
next
  case False
  then have "activeStep pd s e acc user = acc"
    by (auto simp: activeStep_def inRange_def split: option.splits)
  with False show ?thesis
    by (cases acc) (simp add: countsToward_def)
qed

lemma foldl_activeStep_fields:
  "foldl (activeStep pd s e) acc wallet =
     \<lparr>KES = KES acc + length (filter (countsToward pd s e ''KES'') wallet),
      UGX = UGX acc + length (filter (countsToward pd s e ''UGX'') wallet),
      NGN = NGN acc + length (filter (countsToward pd s e ''NGN'') wallet),
      USD = USD acc + length (filter (countsToward pd s e ''USD'') wallet),
      CNY = CNY acc + length (filter (countsToward pd s e ''CNY'') wallet)\<rparr>"
proof (induction wallet arbitrary: acc)
  case Nil
  show ?case by (cases acc) simp
next
  case (Cons user wallet)
  show ?case
    by (simp only: foldl_Cons Cons.IH) (simp add: activeStep_fields)
qed

lemma active_counts:
  "getActiveUsersByCurrencyInRange pd wallet s e =
     \<lparr>KES = length (filter (countsToward pd s e ''KES'') wallet),
      UGX = length (filter (countsToward pd s e ''UGX'') wallet),
      NGN = length (filter (countsToward pd s e ''NGN'') wallet),
      USD = length (filter (countsToward pd s e ''USD'') wallet),
      CNY = length (filter (countsToward pd s e ''CNY'') wallet)\<rparr>"
  by (simp add: getActiveUsersByCurrencyInRange_def foldl_activeStep_fields)

lemma sample_dates:
  "isoDate ''2025-02-15'' = Some 1739577600000"
  "isoDate ''2025-01-28'' = Some 1738022400000"
  by (simp_all add: date_defs)

lemma ngnUser_cells:
  "ngnUser ''Last Transaction'' = Some ''2025-02-15''"
  "ngnUser ''Transaction Count'' = Some ''3''"
  "ngnUser ''KES'' = Some ''0.00''"
  "ngnUser ''UGX'' = Some []"
  "ngnUser ''NGN'' = Some ''100.00''"
  "ngnUser ''USD'' = Some ''0.00''"
  "ngnUser ''CNY'' = None"
  by (simp_all add: ngnUser_def)

lemma kesUser_cells:
  "kesUser ''Last Transaction'' = Some ''2025-01-28''"
  "kesUser ''KES'' = Some ''10.00''"
  "kesUser ''UGX'' = None"
  "kesUser ''NGN'' = None"
  "kesUser ''USD'' = None"
  "kesUser ''CNY'' = None"
  by (simp_all add: kesUser_def)

lemma ngnUser_balances:
  "zeroOrBlank (ngnUser ''KES'')" "zeroOrBlank (ngnUser ''UGX'')"
  "zeroOrBlank (ngnUser ''USD'')" "zeroOrBlank (ngnUser ''CNY'')"
  "positiveBalance (ngnUser ''NGN'')"
  by (simp_all add: ngnUser_cells zeroOrBlank_def positiveBalance_def parse_defs)

text \<open>
  Claim C9, counterexample. A user whose last transaction is on 2025-02-15, inside
  February 2025, with a balance of 100 NGN and a zero or blank balance in every other
  currency: the revision of \<open>unnamed/part_001\<close>, which counts every active user with
  transactions toward KES, counts this user toward KES as well as NGN.
\<close>

theorem ngn_holder_counted_for_kes_counterexample:
  "isoDate ''2025-02-15'' = Some 1739577600000
   \<and> febStart utcZone \<le> 1739577600000 \<and> 1739577600000 \<le> febEnd utcZone
   \<and> zeroOrBlank (ngnUser ''KES'') \<and> zeroOrBlank (ngnUser ''UGX'')
   \<and> zeroOrBlank (ngnUser ''USD'') \<and> zeroOrBlank (ngnUser ''CNY'')
   \<and> activeUsersByCurrency_p1 isoDate 1738065153000 [ngnUser]
       = \<lparr>KES = 1, UGX = 0, NGN = 1, USD = 0, CNY = 0\<rparr>"
proof -
  have act: "isActive_p1 isoDate 1738065153000 ngnUser"
    by (simp add: isActive_p1_def ngnUser_cells sample_dates)
  have tx: "hasTransactions ngnUser"
    by (simp add: hasTransactions_def ngnUser_cells parseInt_def unsignedIntAuto_def parse_defs)
  have hold: "\<not> holdsBalance ngnUser ''KES''" "\<not> holdsBalance ngnUser ''UGX''"
    "holdsBalance ngnUser ''NGN''" "\<not> holdsBalance ngnUser ''USD''" "\<not> holdsBalance ngnUser ''CNY''"
    by (simp_all add: holdsBalance_def ngnUser_cells)
  have "activeUsersByCurrency_p1 isoDate 1738065153000 [ngnUser]
        = \<lparr>KES = 1, UGX = 0, NGN = 1, USD = 0, CNY = 0\<rparr>"
    by (simp add: activeUsersByCurrency_p1_def act countUser_p1_def tx hold Let_def)
  then show ?thesis
    by (simp add: sample_dates ngnUser_balances febStart_def febEnd_def utcTime_def utcZone_def)
qed

text \<open>
  Claim C9, amended. In \<open>getActiveUsersByCurrencyInRange\<close>, as \<open>FinancialDashboard.js\<close>
  and the revision with calendar months have it, a user whose last transaction lies in
  the window and whose balance is zero or blank in KES, UGX, USD and CNY changes no
  count but the one of NGN, which the user raises by one when the NGN balance is
  positive.
\<close>

theorem ngn_holder_counts_toward_ngn_only:
  assumes "user ''Last Transaction'' = Some lastTx" and "lastTx \<noteq> []"
    and "parseDate lastTx = Some d" and "startDate \<le> d" and "d \<le> endDate"
    and "zeroOrBlank (user ''KES'')" and "zeroOrBlank (user ''UGX'')"
    and "zeroOrBlank (user ''USD'')" and "zeroOrBlank (user ''CNY'')"
  shows "getActiveUsersByCurrencyInRange parseDate (before @ user # after) startDate endDate
         = (getActiveUsersByCurrencyInRange parseDate (before @ after) startDate endDate)
             \<lparr>NGN := NGN (getActiveUsersByCurrencyInRange parseDate (before @ after)
                            startDate endDate)
                     + (if positiveBalance (user ''NGN'') then 1 else 0)\<rparr>"
proof -
  have r: "inRange parseDate startDate endDate user"
    using assms(1-5) by (simp add: inRange_def)
  have others: "\<not> countsToward parseDate startDate endDate ''KES'' user"
    "\<not> countsToward parseDate startDate endDate ''UGX'' user"
    "\<not> countsToward parseDate startDate endDate ''USD'' user"
    "\<not> countsToward parseDate startDate endDate ''CNY'' user"
    using assms(6-9) by (simp_all add: countsToward_def zeroOrBlank_not_positive)
  have ngn: "countsToward parseDate startDate endDate ''NGN'' user = positiveBalance (user ''NGN'')"
    using r by (simp add: countsToward_def)
  show ?thesis
    by (simp add: active_counts others ngn)
qed


text \<open>
  Claim C9, witness: the same user in the calendar window of February 2025 (local time
  UTC), followed by a user whose last transaction is in January.
\<close>

theorem ngn_holder_counts_toward_ngn_only_witness:
  "ngnUser ''Last Transaction'' = Some ''2025-02-15''
   \<and> isoDate ''2025-02-15'' = Some 1739577600000
   \<and> febStart utcZone \<le> 1739577600000 \<and> 1739577600000 \<le> febEnd utcZone
   \<and> zeroOrBlank (ngnUser ''KES'') \<and> zeroOrBlank (ngnUser ''UGX'')
   \<and> zeroOrBlank (ngnUser ''USD'') \<and> zeroOrBlank (ngnUser ''CNY'')
   \<and> currentActiveByCurrency_p2 isoDate utcZone [ngnUser, kesUser]
       = \<lparr>KES = 0, UGX = 0, NGN = 1, USD = 0, CNY = 0\<rparr>"
proof -
  have lo: "febStart utcZone \<le> 1739577600000" and hi: "1739577600000 \<le> febEnd utcZone"
    by (simp_all add: febStart_def febEnd_def utcTime_def utcZone_def)
  have ne: "''2025-02-15'' \<noteq> []" by simp
  have rest: "getActiveUsersByCurrencyInRange isoDate ([] @ [kesUser]) (febStart utcZone) (febEnd utcZone)
              = \<lparr>KES = 0, UGX = 0, NGN = 0, USD = 0, CNY = 0\<rparr>"
    by (simp add: getActiveUsersByCurrencyInRange_def activeStep_def kesUser_cells sample_dates
        febStart_def febEnd_def utcTime_def utcZone_def)
  from ngn_holder_counts_toward_ngn_only[of ngnUser "''2025-02-15''" isoDate 1739577600000
      "febStart utcZone" "febEnd utcZone" "[]" "[kesUser]",
      OF ngnUser_cells(1) ne sample_dates(1) lo hi ngnUser_balances(1-4)]
  have "getActiveUsersByCurrencyInRange isoDate ([] @ ngnUser # [kesUser]) (febStart utcZone) (febEnd utcZone)
        = \<lparr>KES = 0, UGX = 0, NGN = 1, USD = 0, CNY = 0\<rparr>"
    by (simp only: rest ngnUser_balances(5)) simp
  then show ?thesis
    using lo hi ngnUser_cells(1) sample_dates(1) ngnUser_balances(1-4)
    by (simp add: currentActiveByCurrency_p2_def)
qed

subsection \<open>The rolling windows\<close>

text \<open>
  When the three readings of the clock are the same instant and the offset of the time
  zone does not change, the current window and the previous window have exactly one
  instant in common, the start of the current one.
\<close>

lemma windows_meet_at_one_instant:
  assumes "readStart clk = readEnd clk" and "readPrevious clk = readEnd clk"
    and "tzaOfUtc tz = (\<lambda>t. k)" and "tzaOfLocal tz = (\<lambda>t. k)"
  shows "(startDateCurrent tz clk \<le> x \<and> x \<le> endDateCurrent clk
          \<and> startDatePrevious tz clk \<le> x \<and> x \<le> endDatePrevious tz clk)
         \<longleftrightarrow> x = startDateCurrent tz clk"
  using assms by (auto simp: window_defs)

text \<open>
  Across a change of the offset the window follows the local calendar. On 2025-03-27 at
  12:00:00 UTC, which is 08:00 local time with daylight saving, the current window
  starts on 2025-02-25 at 08:00 local time without it, 13:00:00 UTC: thirty days less one
  hour before the reading of the clock.
\<close>

lemma window_start_across_daylight_saving:
  "startDateCurrent easternZone clockMar27 = 1740488400000"
  "startDateCurrent utcZone clockMar27 = 1740484800000"
  "readStart clockMar27 - 30 * dayMs = 1740484800000"
  by (simp_all add: window_defs easternZone_def utcZone_def clockMar27_def)

text \<open>
  Claim C8, the code at the failing input. The dashboard is loaded on 2025-02-27 at
  00:00:00 UTC and a user holding KES has the last transaction on 2025-01-28, which is
  read as 00:00:00 UTC, thirty days earlier to the millisecond. The user passes the test
  of the current window and the test of the previous window, and the month-to-date
  entry of KES has one current and one previous active user.
\<close>

theorem boundary_user_in_both_windows:
  "isoDate ''2025-01-28'' = Some (startDateCurrent utcZone clockFeb27Midnight)
   \<and> endDatePrevious utcZone clockFeb27Midnight = startDateCurrent utcZone clockFeb27Midnight
   \<and> KES (getActiveUsersByCurrencyInRange isoDate [kesUser]
            (startDateCurrent utcZone clockFeb27Midnight) (endDateCurrent clockFeb27Midnight)) = 1
   \<and> KES (getActiveUsersByCurrencyInRange isoDate [kesUser]
            (startDatePrevious utcZone clockFeb27Midnight) (endDatePrevious utcZone clockFeb27Midnight)) = 1
   \<and> loadData isoDate utcZone clockFeb27Midnight walletBook
       = Inr (projr (loadData isoDate utcZone clockFeb27Midnight walletBook))
   \<and> currentActiveUsers (mtdGrowth (projr (loadData isoDate utcZone clockFeb27Midnight walletBook)) ! 0)
       = Fin 1
   \<and> previousActiveUsers (mtdGrowth (projr (loadData isoDate utcZone clockFeb27Midnight walletBook)) ! 0)
       = Fin 1"
proof -
  let ?out = "projr (loadData isoDate utcZone clockFeb27Midnight walletBook)"
  have w: "startDateCurrent utcZone clockFeb27Midnight = 1738022400000"
    "endDateCurrent clockFeb27Midnight = 1740614400000"
    "startDatePrevious utcZone clockFeb27Midnight = 1735430400000"
    "endDatePrevious utcZone clockFeb27Midnight = 1738022400000"
    by (simp_all add: window_defs utcZone_def clockFeb27Midnight_def)
  have pos: "positiveBalance (kesUser ''KES'')" and npos: "\<not> positiveBalance (ngnUser ''KES'')"
    by (simp_all add: kesUser_cells ngnUser_cells positiveBalance_def parse_defs)
  have cur: "KES (getActiveUsersByCurrencyInRange isoDate [kesUser] 1738022400000 1740614400000) = 1"
    by (simp add: active_counts countsToward_def inRange_def kesUser_cells(1) sample_dates pos)
  have prev: "KES (getActiveUsersByCurrencyInRange isoDate [kesUser] 1735430400000 1738022400000) = 1"
    by (simp add: active_counts countsToward_def inRange_def kesUser_cells(1) sample_dates pos)
  have ok: "loadData isoDate utcZone clockFeb27Midnight walletBook = Inr ?out"
    by (rule loadData_ok) (simp add: walletBook_def totalUsersOf_def)
  have wallet: "walletBalances walletBook = [ngnUser, kesUser]"
    by (simp add: walletBook_def)
  have cur2: "KES (getActiveUsersByCurrencyInRange isoDate [ngnUser, kesUser] 1738022400000 1740614400000) = 1"
    by (simp add: active_counts countsToward_def inRange_def kesUser_cells(1) sample_dates pos npos)
  have prev2: "KES (getActiveUsersByCurrencyInRange isoDate [ngnUser, kesUser] 1735430400000 1738022400000) = 1"
    by (simp add: active_counts countsToward_def inRange_def kesUser_cells(1) sample_dates pos npos)
  have entry: "currentActiveUsers (mtdGrowth ?out ! 0) = Fin 1"
    "previousActiveUsers (mtdGrowth ?out ! 0) = Fin 1"
    by (simp_all add: loadData_Inr(2)[OF ok] mtdGrowthData_def currencies_def mtdGrowthEntry_def
        Let_def activeCount_def wallet w cur2 prev2)
  from cur prev ok entry show ?thesis
    by (simp add: w sample_dates)
qed

subsection \<open>Two runs on the same snapshot\<close>

lemma sheetPart_independent:
  "map sheetPart (mtdGrowthData rows ca pa) = map sheetPart (mtdGrowthData rows ca' pa')"
  by (simp add: mtdGrowthData_def mtdGrowthEntry_def sheetPart_def Let_def)

lemma sameSelection_counts:
  assumes "sameSelection pd1 s1 e1 pd2 s2 e2 wallet"
  shows "getActiveUsersByCurrencyInRange pd1 wallet s1 e1
         = getActiveUsersByCurrencyInRange pd2 wallet s2 e2"
    and "length (filter (inWindow pd1 s1 e1) wallet) = length (filter (inWindow pd2 s2 e2) wallet)"
proof -
  from assms have sel: "\<And>u. u \<in> set wallet \<Longrightarrow>
      inRange pd1 s1 e1 u = inRange pd2 s2 e2 u \<and> inWindow pd1 s1 e1 u = inWindow pd2 s2 e2 u"
    by (simp add: sameSelection_def list_all_iff)
  have "filter (countsToward pd1 s1 e1 c) wallet = filter (countsToward pd2 s2 e2 c) wallet" for c
    by (rule filter_cong) (simp_all add: countsToward_def sel)
  then show "getActiveUsersByCurrencyInRange pd1 wallet s1 e1
         = getActiveUsersByCurrencyInRange pd2 wallet s2 e2"
    by (simp add: active_counts)
  have "filter (inWindow pd1 s1 e1) wallet = filter (inWindow pd2 s2 e2) wallet"
    by (rule filter_cong) (simp_all add: sel)
  then show "length (filter (inWindow pd1 s1 e1) wallet) = length (filter (inWindow pd2 s2 e2) wallet)"
    by simp
qed

lemma fullBook_users:
  "totalUsersOf (userStats fullBook) (walletBalances fullBook) = Inr (Fin 1234)"
  by (simp add: fullBook_def totalUsersOf_def removeCommas_def parse_defs)

lemma fullBook_wallet: "walletBalances fullBook = [ngnUser, kesUser]"
  by (simp add: fullBook_def)

lemma sample_windows:
  "startDateCurrent utcZone clockFeb27 = 1738065153000"
  "endDateCurrent clockFeb27 = 1740657153000"
  "startDatePrevious utcZone clockFeb27 = 1735473153000"
  "endDatePrevious utcZone clockFeb27 = 1738065153000"
  "startDateCurrent utcZone clockFeb28 = 1738151553000"
  "endDateCurrent clockFeb28 = 1740743553000"
  "startDatePrevious utcZone clockFeb28 = 1735559553000"
  "endDatePrevious utcZone clockFeb28 = 1738151553000"
  "startDateCurrent utcZone clockApr27 = 1743120000000"
  "endDateCurrent clockApr27 = 1745712000000"
  by (simp_all add: window_defs utcZone_def clockFeb27_def clockFeb28_def clockApr27_def)

text \<open>
  Claim C3, counterexample. The same workbook, loaded on 2025-02-27 and on 2025-04-27
  in the same time zone: the first run reports one active user, the second none.
\<close>

theorem clock_changes_active_users_counterexample:
  "loadData isoDate utcZone clockFeb27 fullBook
     = Inr (projr (loadData isoDate utcZone clockFeb27 fullBook))
   \<and> loadData isoDate utcZone clockApr27 fullBook
     = Inr (projr (loadData isoDate utcZone clockApr27 fullBook))
   \<and> activeUsers (keyMetricsOf (projr (loadData isoDate utcZone clockFeb27 fullBook))) = 1
   \<and> activeUsers (keyMetricsOf (projr (loadData isoDate utcZone clockApr27 fullBook))) = 0"
proof -
  have ok1: "loadData isoDate utcZone clockFeb27 fullBook
             = Inr (projr (loadData isoDate utcZone clockFeb27 fullBook))"
    and ok2: "loadData isoDate utcZone clockApr27 fullBook
             = Inr (projr (loadData isoDate utcZone clockApr27 fullBook))"
    by (rule loadData_ok[OF fullBook_users])+
  have "distinctActiveUsers isoDate utcZone clockFeb27 (walletBalances fullBook) = 1"
    by (simp add: distinctActiveUsers_def sample_windows fullBook_wallet inWindow_def
        ngnUser_cells kesUser_cells sample_dates)
  moreover have "distinctActiveUsers isoDate utcZone clockApr27 (walletBalances fullBook) = 0"
    by (simp add: distinctActiveUsers_def sample_windows fullBook_wallet inWindow_def
        ngnUser_cells kesUser_cells sample_dates)
  ultimately show ?thesis
    using ok1 ok2 loadData_Inr(9)[OF ok1] loadData_Inr(9)[OF ok2] by simp
qed

text \<open>
  Claim C3, amended. Two runs on the same workbook agree on every field of the output
  except the ones computed from the windows of active users, which are taken from the
  clock and the time zone of the run: the number of active users and, in the
  month-to-date table, the growth and the current and previous numbers of active users.
  Two runs whose current windows select the same rows of the wallet sheet, and whose
  previous windows do, agree on every field.
\<close>

theorem runs_agree_up_to_window_selection:
  assumes "loadData pd1 tz1 clk1 wb = Inr out1" and "loadData pd2 tz2 clk2 wb = Inr out2"
  shows "totalRevenue (keyMetricsOf out1) = totalRevenue (keyMetricsOf out2)
         \<and> totalTransactions (keyMetricsOf out1) = totalTransactions (keyMetricsOf out2)
         \<and> totalUsers (keyMetricsOf out1) = totalUsers (keyMetricsOf out2)
         \<and> currencyData out1 = currencyData out2
         \<and> monthlyTrends out1 = monthlyTrends out2
         \<and> growthRatesOf out1 = growthRatesOf out2
         \<and> exchangeRates out1 = exchangeRates out2
         \<and> map sheetPart (mtdGrowth out1) = map sheetPart (mtdGrowth out2)
         \<and> (sameSelection pd1 (startDateCurrent tz1 clk1) (endDateCurrent clk1)
                pd2 (startDateCurrent tz2 clk2) (endDateCurrent clk2) (walletBalances wb)
             \<and> sameSelection pd1 (startDatePrevious tz1 clk1) (endDatePrevious tz1 clk1)
                pd2 (startDatePrevious tz2 clk2) (endDatePrevious tz2 clk2) (walletBalances wb)
             \<longrightarrow> out1 = out2)"
proof -
  note a = loadData_Inr[OF assms(1)] and b = loadData_Inr[OF assms(2)]
  have users: "totalUsers (keyMetricsOf out1) = totalUsers (keyMetricsOf out2)"
    using a(8) b(8) by simp
  have rates: "growthRatesOf out1 = growthRatesOf out2"
    by (rule growthRates.equality) (simp_all add: a b)
  have mtd: "map sheetPart (mtdGrowth out1) = map sheetPart (mtdGrowth out2)"
    unfolding a(2) b(2) by (rule sheetPart_independent)
  have same: "out1 = out2"
    if c: "sameSelection pd1 (startDateCurrent tz1 clk1) (endDateCurrent clk1)
             pd2 (startDateCurrent tz2 clk2) (endDateCurrent clk2) (walletBalances wb)"
      and p: "sameSelection pd1 (startDatePrevious tz1 clk1) (endDatePrevious tz1 clk1)
             pd2 (startDatePrevious tz2 clk2) (endDatePrevious tz2 clk2) (walletBalances wb)"
  proof -
    note cur = sameSelection_counts[OF c] and prev = sameSelection_counts(1)[OF p]
    have act: "distinctActiveUsers pd1 tz1 clk1 (walletBalances wb)
               = distinctActiveUsers pd2 tz2 clk2 (walletBalances wb)"
      by (simp add: distinctActiveUsers_def cur(2))
    from assms show ?thesis
      by (auto simp: loadData_def Let_def cur(1) prev act split: sum.splits)
  qed
  from users rates mtd same show ?thesis
    by (simp add: a b)
qed

text \<open>
  Claim C3, witness: the workbook with the sheets of the scenario and two users, loaded
  on 2025-02-27 and on 2025-02-28 at 11:52:33 UTC. Both current windows hold the user of
  2025-02-15 and both previous windows the user of 2025-01-28, and the two outputs, with
  two trend points and one active user, are equal.
\<close>

theorem runs_agree_up_to_window_selection_witness:
  "loadData isoDate utcZone clockFeb27 fullBook
     = Inr (projr (loadData isoDate utcZone clockFeb27 fullBook))
   \<and> loadData isoDate utcZone clockFeb28 fullBook
     = Inr (projr (loadData isoDate utcZone clockFeb28 fullBook))
   \<and> sameSelection isoDate (startDateCurrent utcZone clockFeb27) (endDateCurrent clockFeb27)
        isoDate (startDateCurrent utcZone clockFeb28) (endDateCurrent clockFeb28) (walletBalances fullBook)
   \<and> sameSelection isoDate (startDatePrevious utcZone clockFeb27) (endDatePrevious utcZone clockFeb27)
        isoDate (startDatePrevious utcZone clockFeb28) (endDatePrevious utcZone clockFeb28)
        (walletBalances fullBook)
   \<and> readEnd clockFeb27 \<noteq> readEnd clockFeb28
   \<and> length (monthlyTrends (projr (loadData isoDate utcZone clockFeb27 fullBook))) = 2
   \<and> activeUsers (keyMetricsOf (projr (loadData isoDate utcZone clockFeb27 fullBook))) = 1
   \<and> projr (loadData isoDate utcZone clockFeb27 fullBook)
       = projr (loadData isoDate utcZone clockFeb28 fullBook)"
proof -
  let ?o1 = "projr (loadData isoDate utcZone clockFeb27 fullBook)"
  let ?o2 = "projr (loadData isoDate utcZone clockFeb28 fullBook)"
  have ok1: "loadData isoDate utcZone clockFeb27 fullBook = Inr ?o1"
    and ok2: "loadData isoDate utcZone clockFeb28 fullBook = Inr ?o2"
    by (rule loadData_ok[OF fullBook_users])+
  have c: "sameSelection isoDate (startDateCurrent utcZone clockFeb27) (endDateCurrent clockFeb27)
        isoDate (startDateCurrent utcZone clockFeb28) (endDateCurrent clockFeb28) (walletBalances fullBook)"
    by (simp add: sameSelection_def sample_windows fullBook_wallet inRange_def inWindow_def
        ngnUser_cells kesUser_cells sample_dates)
  have p: "sameSelection isoDate (startDatePrevious utcZone clockFeb27) (endDatePrevious utcZone clockFeb27)
        isoDate (startDatePrevious utcZone clockFeb28) (endDatePrevious utcZone clockFeb28)
        (walletBalances fullBook)"
    by (simp add: sameSelection_def sample_windows fullBook_wallet inRange_def inWindow_def
        ngnUser_cells kesUser_cells sample_dates)
  have d: "readEnd clockFeb27 \<noteq> readEnd clockFeb28"
    by (simp add: clockFeb27_def clockFeb28_def)
  have n: "length (monthlyTrends ?o1) = 2"
    by (simp add: loadData_Inr(1)[OF ok1] length_transformTrends length_monthlyTrendsRaw)
      (simp add: periodKeys_def fullBook_def)
  have u: "activeUsers (keyMetricsOf ?o1) = 1"
    by (simp add: loadData_Inr(9)[OF ok1])
      (simp add: distinctActiveUsers_def sample_windows fullBook_wallet inWindow_def
        ngnUser_cells kesUser_cells sample_dates)
  from runs_agree_up_to_window_selection[OF ok1 ok2] c p have "?o1 = ?o2"
    by blast
  with ok1 ok2 c p d n u show ?thesis
    by (intro conjI)
qed

end
